theory Spec2Isabelle
  imports Main "HOL-Library.Char_ord" "HOL-Library.List_Lexorder"
begin

section \<open>Go values shared by the packages\<close>

text \<open>
  A Go slice \<open>[]T\<close> is \<open>'a list option\<close>: \<open>None\<close> is the nil slice, which the
  command-line code tells apart from an empty one (\<open>x == nil\<close>), and \<open>len\<close> of a nil slice is 0.
\<close>

type_synonym 'a slice = "'a list option"

definition len :: "'a slice \<Rightarrow> nat" where
  "len s = (case s of None \<Rightarrow> 0 | Some xs \<Rightarrow> length xs)"

text \<open>
  Errors are values. \<open>errors_New\<close> is \<open>errors.New(text)\<close>; \<open>fmt_Errorf\<close> is
  \<open>fmt.Errorf(format, args...)\<close> with no \<open>%w\<close> verb; \<open>fmt_Errorf_w\<close> is
  \<open>fmt.Errorf(format, args..., err)\<close> whose last verb is \<open>%w\<close>, so that the result wraps
  \<open>err\<close>. The format and its string operands are kept as they are written in the source.
  \<open>awserr_Error\<close> is an \<open>awserr.Error\<close> with its \<open>Code()\<close>. The remaining constructors are
  the typed and sentinel errors the code tests for, and \<open>other_error\<close> is any other failure
  reported by an external collaborator.
\<close>

datatype error =
    errors_New string
  | fmt_Errorf string "string list"
  | fmt_Errorf_w string "string list" error
  | awserr_Error string
  | ErrStackAlreadyExists string
  | ErrSubnetsNotFound
  | ErrVPCNotFound
  | ErrNoSuchEnvironment string string
  | other_error string

text \<open>\<open>errors.Is(err, target)\<close>: \<open>err\<close> or an error it wraps equals \<open>target\<close>.\<close>

fun errors_Is :: "error \<Rightarrow> error \<Rightarrow> bool" where
  "errors_Is (fmt_Errorf_w f args e) target =
     (fmt_Errorf_w f args e = target \<or> errors_Is e target)"
| "errors_Is e target = (e = target)"

text \<open>\<open>errors.As(err, &existsErr)\<close> for \<open>*cloudformation.ErrStackAlreadyExists\<close>.\<close>

fun errors_As_ErrStackAlreadyExists :: "error \<Rightarrow> bool" where
  "errors_As_ErrStackAlreadyExists (ErrStackAlreadyExists n) = True"
| "errors_As_ErrStackAlreadyExists (fmt_Errorf_w f args e) = errors_As_ErrStackAlreadyExists e"
| "errors_As_ErrStackAlreadyExists e = False"


text \<open>
  \<open>fmt.Sprintf\<close> for the formats of this code: their only verb is \<open>%s\<close> and their operands
  are strings. Each \<open>%s\<close> takes the next operand; a verb with no operand left prints
  \<open>%!s(MISSING)\<close> and operands left over are reported after the text, as Go does.
\<close>

fun Sprintf_extra :: "string list \<Rightarrow> string" where
  "Sprintf_extra [] = []"
| "Sprintf_extra [a] = ''string='' @ a"
| "Sprintf_extra (a # b # as) = ''string='' @ a @ '', '' @ Sprintf_extra (b # as)"

fun Sprintf :: "string \<Rightarrow> string list \<Rightarrow> string" where
  "Sprintf [] [] = []"
| "Sprintf [] (a # as) = ''%!(EXTRA '' @ Sprintf_extra (a # as) @ '')''"
| "Sprintf (c # fmt) as =
     (if c = CHR ''%'' then
        (case fmt of
           [] \<Rightarrow> ''%!(NOVERB)'' @ Sprintf [] as
         | v # rest \<Rightarrow>
             if v = CHR ''s'' then
               (case as of
                  [] \<Rightarrow> ''%!s(MISSING)'' @ Sprintf rest []
                | a # as' \<Rightarrow> a @ Sprintf rest as')
             else if v = CHR ''%'' then CHR ''%'' # Sprintf rest as
             else c # v # Sprintf rest as)
      else c # Sprintf fmt as)"

section \<open>Package config: the environment record store\<close>

record ImportVPC =
  ID :: string
  PublicSubnetIDs :: "string slice"
  PrivateSubnetIDs :: "string slice"

record AdjustVPC =
  CIDR :: string
  AZs :: "string slice"
  PublicSubnetCIDRs :: "string slice"
  PrivateSubnetCIDRs :: "string slice"

record CustomizeEnv =
  ImportVPC :: "ImportVPC option"
  VPCConfig :: "AdjustVPC option"

record Environment =
  App :: string
  Name :: string
  Region :: string
  AccountID :: string
  Prod :: bool
  RegistryURL :: string
  ExecutionRoleARN :: string
  ManagerRoleARN :: string
  CustomConfig :: "CustomizeEnv option"

definition NewCustomizeEnv :: "ImportVPC option \<Rightarrow> AdjustVPC option \<Rightarrow> CustomizeEnv option" where
  "NewCustomizeEnv importVPC adjustVPC =
     (if importVPC = None \<and> adjustVPC = None then None
      else Some \<lparr>ImportVPC = importVPC, VPCConfig = adjustVPC\<rparr>)"

text \<open>The request \<open>CreateEnvironment\<close> sends: \<open>ssm.PutParameterInput\<close>, whose \<open>Overwrite\<close> it leaves unset.\<close>

record PutParameterInput =
  Name :: string
  Description :: string
  Type :: string
  Value :: string
  Overwrite :: "bool option"

definition ssm_ParameterTypeString :: string where
  "ssm_ParameterTypeString = ''String''"

definition ssm_ErrCodeParameterAlreadyExists :: string where
  "ssm_ErrCodeParameterAlreadyExists = ''ParameterAlreadyExists''"

text \<open>
  What a \<open>Store\<close> method uses and this file of the package does not hold: the parameter-store
  client (\<open>ssmClient\<close>, an interface whose state is \<open>'c\<close>), the sibling methods
  \<open>GetApplication\<close> and \<open>listParams\<close>, the JSON codec and the two path formats. They are
  the fields of a record, so that every result below holds for any of them.
\<close>

record ('c, 'app) Store =
  GetApplication :: "'c \<Rightarrow> string \<Rightarrow> error + 'app"
  marshal :: "Environment \<Rightarrow> error + string"
  json_Unmarshal :: "string \<Rightarrow> error + Environment"
  ssmClient_PutParameter :: "'c \<Rightarrow> PutParameterInput \<Rightarrow> error option \<times> 'c"
  listParams :: "'c \<Rightarrow> string \<Rightarrow> error + string list"
  fmtEnvParamPath :: string
  rootEnvParamPath :: string

text \<open>
  \<open>CreateEnvironment\<close> returns the error (\<open>None\<close> is Go's nil) and the client's state after the
  call.
\<close>

definition CreateEnvironment ::
  "('c, 'app) Store \<Rightarrow> 'c \<Rightarrow> Environment \<Rightarrow> error option \<times> 'c" where
  "CreateEnvironment s c environment =
     (case GetApplication s c (Environment.App environment) of
        Inl err \<Rightarrow> (Some err, c)
      | Inr _ \<Rightarrow>
         (let environmentPath =
                Sprintf (fmtEnvParamPath s) [Environment.App environment, Environment.Name environment]
          in case marshal s environment of
               Inl err \<Rightarrow>
                 (Some (fmt_Errorf_w ''serializing environment %s: %w''
                          [Environment.Name environment] err), c)
             | Inr data \<Rightarrow>
                 (case ssmClient_PutParameter s c
                         \<lparr>PutParameterInput.Name = environmentPath,
                          Description = Sprintf ''The %s deployment stage'' [Environment.Name environment],
                          Type = ssm_ParameterTypeString,
                          Value = data,
                          Overwrite = None\<rparr> of
                    (None, c') \<Rightarrow> (None, c')
                  | (Some err, c') \<Rightarrow>
                      (case err of
                         awserr_Error code \<Rightarrow>
                           if code = ssm_ErrCodeParameterAlreadyExists then (None, c')
                           else (Some (fmt_Errorf_w ''create environment %s in application %s: %w''
                                   [Environment.Name environment, Environment.App environment] err), c')
                       | _ \<Rightarrow>
                           (Some (fmt_Errorf_w ''create environment %s in application %s: %w''
                              [Environment.Name environment, Environment.App environment] err), c')))))"

text \<open>
  Modelled from the spec: the parameter store behind \<open>ssmClient\<close>, a service outside the
  repository. Its state maps a parameter name to the stored value. A put on a name that exists
  fails with the code \<open>ParameterAlreadyExists\<close> and writes nothing unless \<open>Overwrite\<close> is
  set ("existence-checked creation"); otherwise it stores the value.
\<close>

definition ssm_PutParameter ::
  "(string \<rightharpoonup> string) \<Rightarrow> PutParameterInput \<Rightarrow> error option \<times> (string \<rightharpoonup> string)" where
  "ssm_PutParameter params input =
     (if params (PutParameterInput.Name input) \<noteq> None \<and> Overwrite input \<noteq> Some True
      then (Some (awserr_Error ssm_ErrCodeParameterAlreadyExists), params)
      else (None, params(PutParameterInput.Name input \<mapsto> Value input)))"

subsection \<open>The stable sort of Go's standard library\<close>

text \<open>
  \<open>sort.SliceStable(x, less)\<close> sorts \<open>x\<close> in place: \<open>less(i, j)\<close> is asked about the elements
  that are at the indices \<open>i\<close> and \<open>j\<close> at that moment. The library sorts every block of 20
  elements by insertion (\<open>insertionSort(data, a, b)\<close>), and merges the blocks only when the
  slice holds more than 20 elements; the merge passes are the parameter \<open>symMergePasses\<close>.
\<close>

definition swap :: "'a list \<Rightarrow> nat \<Rightarrow> nat \<Rightarrow> 'a list" where
  "swap data i j = data[i := data ! j, j := data ! i]"

text \<open>The inner loop: \<open>for j := i; j > a && less(j, j-1); j-- { swap(j, j-1) }\<close>.\<close>

function insertionSort_inner ::
  "('a \<Rightarrow> 'a \<Rightarrow> bool) \<Rightarrow> 'a list \<Rightarrow> nat \<Rightarrow> nat \<Rightarrow> 'a list" where
  "insertionSort_inner lessf data a j =
     (if j > a \<and> lessf (data ! j) (data ! (j - 1))
      then insertionSort_inner lessf (swap data j (j - 1)) a (j - 1)
      else data)"
  by pat_completeness auto
termination
  by (relation "measure (\<lambda>(lessf, data, a, j). j)") auto

text \<open>The outer loop: \<open>for i := a + 1; i < b; i++\<close>.\<close>

function insertionSort_outer ::
  "('a \<Rightarrow> 'a \<Rightarrow> bool) \<Rightarrow> 'a list \<Rightarrow> nat \<Rightarrow> nat \<Rightarrow> nat \<Rightarrow> 'a list" where
  "insertionSort_outer lessf data a b i =
     (if i < b
      then insertionSort_outer lessf (insertionSort_inner lessf data a i) a b (i + 1)
      else data)"
  by pat_completeness auto
termination
  by (relation "measure (\<lambda>(lessf, data, a, b, i). b - i)") auto

definition insertionSort :: "('a \<Rightarrow> 'a \<Rightarrow> bool) \<Rightarrow> 'a list \<Rightarrow> nat \<Rightarrow> nat \<Rightarrow> 'a list" where
  "insertionSort lessf data a b = insertionSort_outer lessf data a b (a + 1)"

text \<open>
  The first loop of \<open>stable\<close>, with \<open>blockSize = 20\<close>:
  \<open>for b <= n { insertionSort(data, a, b); a = b; b += blockSize }; insertionSort(data, a, n)\<close>.
\<close>

function insertionSortBlocks ::
  "('a \<Rightarrow> 'a \<Rightarrow> bool) \<Rightarrow> 'a list \<Rightarrow> nat \<Rightarrow> nat \<Rightarrow> nat \<Rightarrow> 'a list" where
  "insertionSortBlocks lessf data n a b =
     (if b \<le> n
      then insertionSortBlocks lessf (insertionSort lessf data a b) n b (b + 20)
      else insertionSort lessf data a n)"
  by pat_completeness auto
termination
  by (relation "measure (\<lambda>(lessf, data, n, a, b). Suc n - b)") auto

definition SliceStable ::
  "(('a \<Rightarrow> 'a \<Rightarrow> bool) \<Rightarrow> 'a list \<Rightarrow> 'a list) \<Rightarrow> 'a list \<Rightarrow> ('a \<Rightarrow> 'a \<Rightarrow> bool) \<Rightarrow> 'a list" where
  "SliceStable symMergePasses x lessf =
     (let n = length x;
          data = insertionSortBlocks lessf x n 0 20
      in if 20 < n then symMergePasses lessf data else data)"

subsection \<open>ListEnvironments\<close>

text \<open>The loop that decodes the stored records, appending each to \<open>environments\<close>.\<close>

fun unmarshalEnvs ::
  "('c, 'app) Store \<Rightarrow> string \<Rightarrow> string list \<Rightarrow> Environment list \<Rightarrow> error + Environment list" where
  "unmarshalEnvs s appName [] environments = Inr environments"
| "unmarshalEnvs s appName (serializedEnv # rest) environments =
     (case json_Unmarshal s serializedEnv of
        Inl err \<Rightarrow>
          Inl (fmt_Errorf_w ''read environment configuration for application %s: %w'' [appName] err)
      | Inr env \<Rightarrow> unmarshalEnvs s appName rest (environments @ [env]))"

definition ListEnvironments ::
  "('c, 'app) Store \<Rightarrow> ((Environment \<Rightarrow> Environment \<Rightarrow> bool) \<Rightarrow> Environment list \<Rightarrow> Environment list)
     \<Rightarrow> 'c \<Rightarrow> string \<Rightarrow> error + Environment list" where
  "ListEnvironments s symMergePasses c appName =
     (let environmentsPath = Sprintf (rootEnvParamPath s) [appName]
      in case listParams s c environmentsPath of
           Inl err \<Rightarrow> Inl (fmt_Errorf_w ''list environments for application %s: %w'' [appName] err)
         | Inr serializedEnvs \<Rightarrow>
             (case unmarshalEnvs s appName serializedEnvs [] of
                Inl err \<Rightarrow> Inl err
              | Inr environments \<Rightarrow>
                  (let byName = SliceStable symMergePasses environments
                                  (\<lambda>ei ej. Environment.Name ei < Environment.Name ej);
                       byProd = SliceStable symMergePasses byName
                                  (\<lambda>ei ej. \<not> Environment.Prod ei)
                   in Inr byProd)))"

section \<open>Package template: composing a workload's document\<close>

definition fmtWkldCFTemplatePath :: string where
  "fmtWkldCFTemplatePath = ''workloads/%s/%s/cf.yml''"

definition fmtWkldPartialsCFTemplatePath :: string where
  "fmtWkldPartialsCFTemplatePath = ''workloads/partials/cf/%s.yml''"

definition servicesDirName :: string where
  "servicesDirName = ''services''"

definition jobDirName :: string where
  "jobDirName = ''jobs''"

definition PublicSubnetsPlacement :: string where
  "PublicSubnetsPlacement = ''PublicSubnets''"

definition PrivateSubnetsPlacement :: string where
  "PrivateSubnetsPlacement = ''PrivateSubnets''"

definition snsARNPattern :: string where
  "snsARNPattern = ''arn:%s:sns:%s:%s:%s-%s-%s-%s''"

definition partialsWorkloadCFTemplateNames :: "string list" where
  "partialsWorkloadCFTemplateNames =
     [''loggroup'',
      ''envvars-container'',
      ''envvars-common'',
      ''secrets'',
      ''executionrole'',
      ''taskrole'',
      ''workload-container'',
      ''fargate-taskdef-base-properties'',
      ''service-base-properties'',
      ''servicediscovery'',
      ''addons'',
      ''sidecars'',
      ''logconfig'',
      ''autoscaling'',
      ''eventrule'',
      ''state-machine'',
      ''state-machine-definition.json'',
      ''efs-access-point'',
      ''env-controller'',
      ''mount-points'',
      ''volumes'',
      ''image-overrides'',
      ''instancerole'',
      ''accessrole'',
      ''publish'',
      ''subscribe'',
      ''nlb'',
      ''vpc-connector'']"

text \<open>
  The fields of \<open>WorkloadOpts\<close> that the functions below read. The records are extensible:
  the functions take any extension of them, so the other fields of the Go structs change
  nothing.
\<close>

record ManagedVolumeCreationInfo =
  Name :: "string option"
  DirName :: "string option"
  UID :: "nat option"
  GID :: "nat option"

record StorageOpts =
  Ephemeral :: "int option"
  ManagedVolumeInfo :: "ManagedVolumeCreationInfo option"

definition requiresEFSCreation :: "'a StorageOpts_scheme \<Rightarrow> bool" where
  "requiresEFSCreation s = (ManagedVolumeInfo s \<noteq> None)"

record NetworkOpts =
  AssignPublicIP :: string
  SubnetsType :: string
  SecurityGroups :: "string slice"

record WorkloadOpts =
  Storage :: "StorageOpts option"
  Network :: NetworkOpts
  WorkloadType :: string

text \<open>\<open>parameters\<close> starts empty and each \<open>if\<close> appends to it, in the order of the source.\<close>

definition envControllerParameters :: "'a WorkloadOpts_scheme \<Rightarrow> string list" where
  "envControllerParameters o' =
     (let parameters = [];
          parameters = (if WorkloadType o' = ''Load Balanced Web Service''
                        then parameters @ [''ALBWorkloads,'', ''Aliases,''] else parameters);
          parameters = (if SubnetsType (Network o') = PrivateSubnetsPlacement
                        then parameters @ [''NATWorkloads,''] else parameters);
          parameters = (if (case Storage o' of None \<Rightarrow> False | Some st \<Rightarrow> requiresEFSCreation st)
                        then parameters @ [''EFSWorkloads,''] else parameters)
      in parameters)"

record Topic =
  Name :: "string option"
  Region :: string
  Partition :: string
  AccountID :: string
  App :: string
  Env :: string
  Svc :: string

text \<open>\<open>aws.StringValue\<close>: the string a pointer holds, or the empty string for nil.\<close>

definition aws_StringValue :: "string option \<Rightarrow> string" where
  "aws_StringValue v = (case v of None \<Rightarrow> [] | Some s \<Rightarrow> s)"

definition ARN :: "'a Topic_scheme \<Rightarrow> string" where
  "ARN t = Sprintf snsARNPattern
     [Topic.Partition t, Topic.Region t, Topic.AccountID t, Topic.App t, Topic.Env t, Topic.Svc t,
      aws_StringValue (Topic.Name t)]"

text \<open>
  What \<open>parseWkld\<close> calls and this file does not hold: the receiver's \<open>parse\<close> (it loads and
  parses one named file with the parsing functions of \<open>withSvcParsingFuncs\<close>), and the
  operations of \<open>text/template\<close> on a parsed template \<open>'tpl\<close>: its \<open>Tree\<close>, \<open>AddParseTree\<close>, which
  returns the receiver with the tree added under the name, and \<open>Execute\<close>, which returns what
  it wrote to the buffer. \<open>fmt_v\<close> is the \<open>%v\<close> rendering of the data in the error text.
\<close>

record ('tpl, 'tree, 'd) Template =
  parse :: "string \<Rightarrow> string \<Rightarrow> error + 'tpl"
  Tree :: "'tpl \<Rightarrow> 'tree"
  AddParseTree :: "'tpl \<Rightarrow> string \<Rightarrow> 'tree \<Rightarrow> error + 'tpl"
  Execute :: "'tpl \<Rightarrow> 'd \<Rightarrow> error + string"
  fmt_v :: "'d \<Rightarrow> string"

datatype Content = Content string

text \<open>The loop of \<open>parseWkld\<close> over the names that are left, on the base template \<open>tpl\<close>.\<close>

fun addPartials ::
  "('tpl, 'tree, 'd) Template \<Rightarrow> string list \<Rightarrow> 'tpl \<Rightarrow> error + 'tpl" where
  "addPartials t [] tpl = Inr tpl"
| "addPartials t (templateName # rest) tpl =
     (case parse t templateName (Sprintf fmtWkldPartialsCFTemplatePath [templateName]) of
        Inl err \<Rightarrow> Inl err
      | Inr nestedTpl \<Rightarrow>
          (case AddParseTree t tpl templateName (Tree t nestedTpl) of
             Inl err \<Rightarrow>
               Inl (fmt_Errorf_w ''add parse tree of %s to base template: %w'' [templateName] err)
           | Inr tpl' \<Rightarrow> addPartials t rest tpl'))"

definition parseWkld ::
  "('tpl, 'tree, 'd) Template \<Rightarrow> string \<Rightarrow> string \<Rightarrow> 'd \<Rightarrow> error + Content" where
  "parseWkld t name wkldDirName data =
     (case parse t ''base'' (Sprintf fmtWkldCFTemplatePath [wkldDirName, name]) of
        Inl err \<Rightarrow> Inl err
      | Inr tpl \<Rightarrow>
          (case addPartials t partialsWorkloadCFTemplateNames tpl of
             Inl err \<Rightarrow> Inl err
           | Inr tpl' \<Rightarrow>
               (case Execute t tpl' data of
                  Inl err \<Rightarrow>
                    Inl (fmt_Errorf_w ''execute template %s with data %v: %w''
                           [name, fmt_v t data] err)
                | Inr buf \<Rightarrow> Inr (Content buf))))"

text \<open>
  The fragments \<open>names\<close> are attached to \<open>tpl\<close>, one after the other, and \<open>final\<close> is the
  template that results: each is loaded by \<open>parse\<close> and its tree is added under its own name.
\<close>

primrec attached ::
  "('tpl, 'tree, 'd) Template \<Rightarrow> string list \<Rightarrow> 'tpl \<Rightarrow> 'tpl \<Rightarrow> bool" where
  "attached t [] tpl final = (final = tpl)"
| "attached t (n # ns) tpl final =
     (\<exists>nested mid.
        parse t n (Sprintf fmtWkldPartialsCFTemplatePath [n]) = Inr nested \<and>
        AddParseTree t tpl n (Tree t nested) = Inr mid \<and>
        attached t ns mid final)"

section \<open>Package cli: initialising an environment\<close>

subsection \<open>The values of the flags\<close>

record importVPCVars =
  ID :: string
  PublicSubnetIDs :: "string slice"
  PrivateSubnetIDs :: "string slice"

definition importVPCVars_isSet :: "importVPCVars \<Rightarrow> bool" where
  "importVPCVars_isSet v =
     (if importVPCVars.ID v \<noteq> [] then True
      else len (importVPCVars.PublicSubnetIDs v) > 0 \<or> len (importVPCVars.PrivateSubnetIDs v) > 0)"

text \<open>
  \<open>CIDR\<close> is a \<open>net.IPNet\<close>, which the code reads through \<open>String()\<close> only: the field
  holds that rendering. \<open>emptyIPNet\<close> is \<open>net.IPNet{}\<close>, which renders as \<open><nil>\<close>.
\<close>

record adjustVPCVars =
  CIDR :: string
  AZs :: "string slice"
  PublicSubnetCIDRs :: "string slice"
  PrivateSubnetCIDRs :: "string slice"

definition emptyIPNet :: string where
  "emptyIPNet = ''<nil>''"

definition adjustVPCVars_isSet :: "adjustVPCVars \<Rightarrow> bool" where
  "adjustVPCVars_isSet v =
     (if adjustVPCVars.CIDR v \<noteq> emptyIPNet then True
      else list_ex (\<lambda>arr. len arr \<noteq> 0)
             [adjustVPCVars.AZs v, adjustVPCVars.PublicSubnetCIDRs v,
              adjustVPCVars.PrivateSubnetCIDRs v])"

record tempCredsVars =
  AccessKeyID :: string
  SecretAccessKey :: string
  SessionToken :: string

definition tempCredsVars_isSet :: "tempCredsVars \<Rightarrow> bool" where
  "tempCredsVars_isSet v = (AccessKeyID v \<noteq> [] \<and> SecretAccessKey v \<noteq> [])"

record initEnvVars =
  appName :: string
  name :: string
  profile :: string
  isProduction :: bool
  defaultConfig :: bool
  importVPC :: importVPCVars
  adjustVPC :: adjustVPCVars
  tempCreds :: tempCredsVars
  region :: string

text \<open>
  \<open>initEnvOpts\<close> embeds \<open>initEnvVars\<close>; of the session it holds the code reads the region
  (\<open>o.sess.Config.Region\<close>, a pointer to a string). The interfaces it holds are the record
  \<open>deps\<close> below.
\<close>

record initEnvOpts = initEnvVars +
  sess_Config_Region :: "string option"

subsection \<open>What the command depends on\<close>

text \<open>The types of other packages, with the fields and the method results this code reads.\<close>

record Application =
  Name :: string
  AccountID :: string
  Domain :: string
  Tags :: "string \<rightharpoonup> string"
  RequiresDNSDelegation :: bool

record Caller =
  Account :: string
  RootUserARN :: string

record AppInformation =
  Name :: string
  DNSName :: string
  AccountPrincipalARN :: string

record CreateEnvironmentInput =
  Name :: string
  App :: AppInformation
  Prod :: bool
  AdditionalTags :: "string \<rightharpoonup> string"
  CustomResourcesURLs :: "string \<rightharpoonup> string"
  AdjustVPCConfig :: "AdjustVPC option"
  ImportVPCConfig :: "ImportVPC option"
  Version :: string

record AddEnvToAppOpts =
  App :: Application
  EnvName :: string
  EnvRegion :: string
  EnvAccountID :: string

record AppRegionalResources =
  S3Bucket :: string

record SubnetsInput =
  VPCID :: string
  IsPublic :: bool

text \<open>
  The tag that marks a role as created for an environment: \<open>deploy.EnvTagKey\<close>, the
  \<open>copilot-environment\<close> tag of the comment on \<open>tryDeletingEnvRoles\<close>. The flag of the
  default configuration is \<open>--default-config\<close>, as the command's examples write it.
\<close>

definition deploy_EnvTagKey :: string where
  "deploy_EnvTagKey = ''copilot-environment''"


text \<open>
  The interfaces an \<open>initEnvOpts\<close> holds (each answers a call with a result, as a test double
  does), and the names of other files and packages that the code uses: the flag names, the
  validation of an environment's name, the highlighting of a name in a message, the stack name
  of an environment and the version of the environment template.
\<close>

record deps =
  profileFlag :: string
  accessKeyIDFlag :: string
  secretAccessKeyFlag :: string
  sessionTokenFlag :: string
  validateEnvironmentName :: "string \<Rightarrow> error option"
  color_HighlightUserInput :: "string \<Rightarrow> string"
  stack_NameForEnv :: "string \<Rightarrow> string \<Rightarrow> string"
  deploy_LatestEnvTemplateVersion :: string
  store_GetApplication :: "string \<Rightarrow> error + Application"
  store_GetEnvironment :: "string \<Rightarrow> string \<Rightarrow> error + Environment"
  store_CreateEnvironment :: "Environment \<Rightarrow> error option"
  envIdentity_Get :: "error + Caller"
  identity_Get :: "error + Caller"
  iam_CreateECSServiceLinkedRole :: "error option"
  iam_ListRoleTags :: "string \<Rightarrow> error + (string \<rightharpoonup> string)"
  iam_DeleteRole :: "string \<Rightarrow> error option"
  cfn_Exists :: "string \<Rightarrow> error + bool"
  appDeployer_AddEnvToApp :: "AddEnvToAppOpts \<Rightarrow> error option"
  appDeployer_DelegateDNSPermissions :: "Application \<Rightarrow> string \<Rightarrow> error option"
  appCFN_GetAppResourcesByRegion :: "Application \<Rightarrow> string \<Rightarrow> error + AppRegionalResources"
  newS3 :: "string \<Rightarrow> error option"
  uploader_UploadEnvironmentCustomResources :: "string \<Rightarrow> error + (string \<rightharpoonup> string)"
  envDeployer_DeployAndRenderEnvironment :: "CreateEnvironmentInput \<Rightarrow> error option"
  envDeployer_GetEnvironment :: "string \<Rightarrow> string \<Rightarrow> error + Environment"
  selVPC_VPC :: "error + string"
  selVPC_Subnets :: "SubnetsInput \<Rightarrow> string slice \<times> error option"
  ec2Client_HasDNSSupport :: "string \<Rightarrow> error + bool"

text \<open>
  The calls \<open>Execute\<close> makes to the systems outside the command, in the order it makes them,
  and the one call of the validation (the store's \<open>GetEnvironment\<close>).
  \<open>Execute\<close> and the functions it calls return the calls they made beside their result.
  What the progress spinner and the \<open>log\<close> package print on the way is not part of that
  result, and \<open>initRuntimeClients\<close>, which only fills the interfaces that are not set, is not
  a step of it.
\<close>

datatype call =
    store_GetApplication_call string
  | envIdentity_Get_call
  | DelegateDNSPermissions_call Application string
  | CreateECSServiceLinkedRole_call
  | AddEnvToApp_call AddEnvToAppOpts
  | GetAppResourcesByRegion_call Application string
  | newS3_call string
  | UploadEnvironmentCustomResources_call string
  | identity_Get_call
  | cfn_Exists_call string
  | ListRoleTags_call string
  | DeleteRole_call string
  | DeployAndRenderEnvironment_call CreateEnvironmentInput
  | envDeployer_GetEnvironment_call string string
  | store_CreateEnvironment_call Environment
  | store_GetEnvironment_call string string

text \<open>
  What \<open>askImportResources\<close> prints through the \<open>log\<close> package: the error that no
  existing VPC was found, the error that the VPC has DNS support disabled, the warning that
  no existing subnets were found in the VPC (without two public subnets, no load-balanced
  web service can be deployed) and the error that no existing subnets were found in the VPC
  (private ones); the last two with the identifier of the VPC.
\<close>

datatype printed =
    Errorf_NoExistingVPCs
  | Errorln_DNSSupportDisabled
  | Warningf_NoExistingSubnets string
  | Errorf_NoExistingSubnets string

subsection \<open>Validation\<close>






subsection \<open>Resolving the resources of an imported VPC\<close>

text \<open>
  \<open>askImportResources\<close> returns its error, the options as it leaves them (it fills the fields
  of \<open>importVPC\<close> as it goes) and what it printed.
\<close>

definition askImportResources ::
  "deps \<Rightarrow> initEnvOpts \<Rightarrow> error option \<times> initEnvOpts \<times> printed list" where
  "askImportResources d opts =
     (case (if importVPCVars.ID (importVPC opts) = [] then
              (case selVPC_VPC d of
                 Inl err \<Rightarrow>
                   Inl (fmt_Errorf_w ''select VPC: %w'' [] err,
                        if err = ErrVPCNotFound then [Errorf_NoExistingVPCs] else [])
               | Inr vpcID \<Rightarrow>
                   Inr (opts\<lparr>importVPC := (importVPC opts)\<lparr>importVPCVars.ID := vpcID\<rparr>\<rparr>))
            else Inr opts) of
        Inl (err, out) \<Rightarrow> (Some err, opts, out)
      | Inr o1 \<Rightarrow>
          (case ec2Client_HasDNSSupport d (importVPCVars.ID (importVPC o1)) of
             Inl err \<Rightarrow>
               (Some (fmt_Errorf_w ''check if VPC %s has DNS support enabled: %w''
                        [importVPCVars.ID (importVPC o1)] err), o1, [])
           | Inr dnsSupport \<Rightarrow>
               if \<not> dnsSupport then
                 (Some (fmt_Errorf ''VPC %s has no DNS support enabled''
                          [importVPCVars.ID (importVPC o1)]), o1, [Errorln_DNSSupportDisabled])
               else
                 (case (if importVPCVars.PublicSubnetIDs (importVPC o1) = None then
                          (case selVPC_Subnets d
                                  \<lparr>VPCID = importVPCVars.ID (importVPC o1), IsPublic = True\<rparr> of
                             (publicSubnets, err) \<Rightarrow>
                               (case (case err of
                                        None \<Rightarrow> Inr []
                                      | Some e \<Rightarrow>
                                          if errors_Is e ErrSubnetsNotFound
                                          then Inr [Warningf_NoExistingSubnets
                                                      (importVPCVars.ID (importVPC o1))]
                                          else Inl (fmt_Errorf_w ''select public subnets: %w'' [] e)) of
                                  Inl e \<Rightarrow> Inl (e, [])
                                | Inr out \<Rightarrow>
                                    if len publicSubnets = 1 then
                                      Inl (errors_New
                                             ''select public subnets: at least two public subnets must be selected to enable Load Balancing'',
                                           out)
                                    else
                                      Inr (o1\<lparr>importVPC :=
                                                (importVPC o1)\<lparr>importVPCVars.PublicSubnetIDs :=
                                                                   publicSubnets\<rparr>\<rparr>, out)))
                        else Inr (o1, [])) of
                    Inl (err, out) \<Rightarrow> (Some err, o1, out)
                  | Inr (o2, out) \<Rightarrow>
                      if importVPCVars.PrivateSubnetIDs (importVPC o2) = None then
                        (case selVPC_Subnets d
                                \<lparr>VPCID = importVPCVars.ID (importVPC o2), IsPublic = False\<rparr> of
                           (privateSubnets, err) \<Rightarrow>
                             (case err of
                                Some e \<Rightarrow>
                                  (Some (fmt_Errorf_w ''select private subnets: %w'' [] e), o2,
                                   out @ (if e = ErrSubnetsNotFound
                                          then [Errorf_NoExistingSubnets
                                                  (importVPCVars.ID (importVPC o2))]
                                          else []))
                              | None \<Rightarrow>
                                  if len privateSubnets < 2 then
                                    (Some (errors_New
                                             ''select private subnets: at least two private subnets must be selected''),
                                     o2, out)
                                  else
                                    (None,
                                     o2\<lparr>importVPC :=
                                          (importVPC o2)\<lparr>importVPCVars.PrivateSubnetIDs :=
                                                             privateSubnets\<rparr>\<rparr>,
                                     out)))
                      else (None, o2, out))))"

subsection \<open>The custom configuration of the environment\<close>

definition importVPCConfig :: "'a initEnvVars_scheme \<Rightarrow> ImportVPC option" where
  "importVPCConfig opts =
     (if defaultConfig opts \<or> \<not> importVPCVars_isSet (importVPC opts) then None
      else Some \<lparr>ImportVPC.ID = importVPCVars.ID (importVPC opts),
                 PublicSubnetIDs = importVPCVars.PublicSubnetIDs (importVPC opts),
                 PrivateSubnetIDs = importVPCVars.PrivateSubnetIDs (importVPC opts)\<rparr>)"

definition adjustVPCConfig :: "'a initEnvVars_scheme \<Rightarrow> AdjustVPC option" where
  "adjustVPCConfig opts =
     (if defaultConfig opts \<or> \<not> adjustVPCVars_isSet (adjustVPC opts) then None
      else Some \<lparr>AdjustVPC.CIDR = adjustVPCVars.CIDR (adjustVPC opts),
                 AZs = adjustVPCVars.AZs (adjustVPC opts),
                 PublicSubnetCIDRs = adjustVPCVars.PublicSubnetCIDRs (adjustVPC opts),
                 PrivateSubnetCIDRs = adjustVPCVars.PrivateSubnetCIDRs (adjustVPC opts)\<rparr>)"

subsection \<open>Deploying the environment\<close>

text \<open>The loop of \<open>tryDeletingEnvRoles\<close> over the role names; both \<open>continue\<close>s go on with the rest.\<close>

fun tryDeletingRoles :: "deps \<Rightarrow> string list \<Rightarrow> call list" where
  "tryDeletingRoles d [] = []"
| "tryDeletingRoles d (roleName # rest) =
     ListRoleTags_call roleName #
     (case iam_ListRoleTags d roleName of
        Inl err \<Rightarrow> tryDeletingRoles d rest
      | Inr tags \<Rightarrow>
          if tags deploy_EnvTagKey = None then tryDeletingRoles d rest
          else DeleteRole_call roleName # tryDeletingRoles d rest)"

definition tryDeletingEnvRoles :: "deps \<Rightarrow> string \<Rightarrow> string \<Rightarrow> call list" where
  "tryDeletingEnvRoles d app env =
     (let roleNames = [Sprintf ''%s-CFNExecutionRole'' [stack_NameForEnv d app env],
                       Sprintf ''%s-EnvManagerRole'' [stack_NameForEnv d app env]]
      in tryDeletingRoles d roleNames)"

definition cleanUpDanglingRoles :: "deps \<Rightarrow> string \<Rightarrow> string \<Rightarrow> error option \<times> call list" where
  "cleanUpDanglingRoles d app env =
     (case cfn_Exists d (stack_NameForEnv d app env) of
        Inl err \<Rightarrow>
          (Some (fmt_Errorf_w ''check if stack %s exists: %w'' [stack_NameForEnv d app env] err),
           [cfn_Exists_call (stack_NameForEnv d app env)])
      | Inr exists \<Rightarrow>
          if exists then (None, [cfn_Exists_call (stack_NameForEnv d app env)])
          else (None, cfn_Exists_call (stack_NameForEnv d app env) # tryDeletingEnvRoles d app env))"

text \<open>The input \<open>deployEnv\<close> builds for the deployer.\<close>

definition deployEnvInput ::
  "deps \<Rightarrow> 'a initEnvVars_scheme \<Rightarrow> Application \<Rightarrow> (string \<rightharpoonup> string) \<Rightarrow> Caller
     \<Rightarrow> CreateEnvironmentInput" where
  "deployEnvInput d opts app customResourcesURLs caller =
     \<lparr>CreateEnvironmentInput.Name = name opts,
      App = \<lparr>AppInformation.Name = appName opts,
             DNSName = Domain app,
             AccountPrincipalARN = RootUserARN caller\<rparr>,
      Prod = isProduction opts,
      AdditionalTags = Tags app,
      CustomResourcesURLs = customResourcesURLs,
      AdjustVPCConfig = adjustVPCConfig opts,
      ImportVPCConfig = importVPCConfig opts,
      Version = deploy_LatestEnvTemplateVersion d\<rparr>"

definition deployEnv ::
  "deps \<Rightarrow> 'a initEnvVars_scheme \<Rightarrow> Application \<Rightarrow> (string \<rightharpoonup> string)
     \<Rightarrow> error option \<times> call list" where
  "deployEnv d opts app customResourcesURLs =
     (case identity_Get d of
        Inl err \<Rightarrow> (Some (fmt_Errorf_w ''get identity: %w'' [] err), [identity_Get_call])
      | Inr caller \<Rightarrow>
          (let input = deployEnvInput d opts app customResourcesURLs caller
           in case cleanUpDanglingRoles d (appName opts) (name opts) of
                (Some err, calls) \<Rightarrow> (Some err, identity_Get_call # calls)
              | (None, calls) \<Rightarrow>
                  (case envDeployer_DeployAndRenderEnvironment d input of
                     Some err \<Rightarrow>
                       if errors_As_ErrStackAlreadyExists err
                       then (None,
                             identity_Get_call # calls @ [DeployAndRenderEnvironment_call input])
                       else (Some err,
                             identity_Get_call # calls @ [DeployAndRenderEnvironment_call input]
                               @ tryDeletingEnvRoles d (appName opts) (name opts))
                   | None \<Rightarrow>
                       (None,
                        identity_Get_call # calls @ [DeployAndRenderEnvironment_call input]))))"

definition addToStackset :: "deps \<Rightarrow> AddEnvToAppOpts \<Rightarrow> error option \<times> call list" where
  "addToStackset d opts' =
     (case appDeployer_AddEnvToApp d opts' of
        Some err \<Rightarrow>
          (Some (fmt_Errorf_w ''deploy env %s to application %s: %w''
                   [EnvName opts', Application.Name (AddEnvToAppOpts.App opts')] err),
           [AddEnvToApp_call opts'])
      | None \<Rightarrow> (None, [AddEnvToApp_call opts']))"

definition delegateDNSFromApp :: "deps \<Rightarrow> Application \<Rightarrow> string \<Rightarrow> error option \<times> call list" where
  "delegateDNSFromApp d app accountID =
     (if accountID = Application.AccountID app then (None, [])
      else (case appDeployer_DelegateDNSPermissions d app accountID of
              Some err \<Rightarrow> (Some err, [DelegateDNSPermissions_call app accountID])
            | None \<Rightarrow> (None, [DelegateDNSPermissions_call app accountID])))"

text \<open>
  The body of \<open>Execute\<close> is written in three parts, the later ones first. This is the last
  part, the steps 4 to 6 of the source: deploy the stack, get the environment from the
  deployer, stamp it and store it. \<open>calls\<close> are the calls made before.
\<close>

definition Execute_deploy_and_store ::
  "deps \<Rightarrow> initEnvOpts \<Rightarrow> Application \<Rightarrow> (string \<rightharpoonup> string) \<Rightarrow> call list
     \<Rightarrow> error option \<times> call list" where
  "Execute_deploy_and_store d opts app urls calls =
     (case deployEnv d opts app urls of
        (Some err, calls4) \<Rightarrow> (Some err, calls @ calls4)
      | (None, calls4) \<Rightarrow>
          (case envDeployer_GetEnvironment d (appName opts) (name opts) of
             Inl err \<Rightarrow>
               (Some (fmt_Errorf_w ''get environment struct for %s: %w'' [name opts] err),
                calls @ calls4 @ [envDeployer_GetEnvironment_call (appName opts) (name opts)])
           | Inr env \<Rightarrow>
               (let env = env\<lparr>Environment.Prod := isProduction opts\<rparr>;
                    env = env\<lparr>CustomConfig :=
                                NewCustomizeEnv (importVPCConfig opts) (adjustVPCConfig opts)\<rparr>;
                    calls6 = calls @ calls4
                               @ [envDeployer_GetEnvironment_call (appName opts) (name opts),
                                  store_CreateEnvironment_call env]
                in case store_CreateEnvironment d env of
                     Some err \<Rightarrow> (Some (fmt_Errorf_w ''store environment: %w'' [] err), calls6)
                   | None \<Rightarrow> (None, calls6))))"

text \<open>
  The middle part, the steps 1 to 3 of the source: the service-linked role (its result is
  dropped), the stack set, and the upload of the custom resources.
\<close>

definition Execute_register_and_upload ::
  "deps \<Rightarrow> initEnvOpts \<Rightarrow> Application \<Rightarrow> Caller \<Rightarrow> call list \<Rightarrow> error option \<times> call list" where
  "Execute_register_and_upload d opts app envCaller calls =
     (let calls1 = calls @ [CreateECSServiceLinkedRole_call];
          envRegion = aws_StringValue (sess_Config_Region opts)
      in case addToStackset d \<lparr>AddEnvToAppOpts.App = app,
                                EnvName = name opts,
                                EnvRegion = envRegion,
                                EnvAccountID = Account envCaller\<rparr> of
           (Some err, calls2) \<Rightarrow> (Some err, calls1 @ calls2)
         | (None, calls2) \<Rightarrow>
             (case appCFN_GetAppResourcesByRegion d app envRegion of
                Inl err \<Rightarrow>
                  (Some (fmt_Errorf_w ''get app resources: %w'' [] err),
                   calls1 @ calls2 @ [GetAppResourcesByRegion_call app envRegion])
              | Inr resources \<Rightarrow>
                  (case newS3 d envRegion of
                     Some err \<Rightarrow>
                       (Some err,
                        calls1 @ calls2 @ [GetAppResourcesByRegion_call app envRegion,
                                           newS3_call envRegion])
                   | None \<Rightarrow>
                       (let calls3 = calls1 @ calls2
                                       @ [GetAppResourcesByRegion_call app envRegion,
                                          newS3_call envRegion,
                                          UploadEnvironmentCustomResources_call (S3Bucket resources)]
                        in case uploader_UploadEnvironmentCustomResources d (S3Bucket resources) of
                             Inl err \<Rightarrow>
                               (Some (fmt_Errorf_w ''upload custom resources to bucket %s: %w''
                                        [S3Bucket resources] err), calls3)
                           | Inr urls \<Rightarrow> Execute_deploy_and_store d opts app urls calls3))))"

text \<open>The first part: the application, the identity of the environment's account, the DNS delegation.\<close>

definition Execute :: "deps \<Rightarrow> initEnvOpts \<Rightarrow> error option \<times> call list" where
  "Execute d opts =
     (case store_GetApplication d (appName opts) of
        Inl err \<Rightarrow> (Some err, [store_GetApplication_call (appName opts)])
      | Inr app \<Rightarrow>
          (case envIdentity_Get d of
             Inl err \<Rightarrow>
               (Some (fmt_Errorf_w ''get identity: %w'' [] err),
                [store_GetApplication_call (appName opts), envIdentity_Get_call])
           | Inr envCaller \<Rightarrow>
               (case (if RequiresDNSDelegation app
                      then delegateDNSFromApp d app (Account envCaller) else (None, [])) of
                  (Some err, calls0) \<Rightarrow>
                    (Some (fmt_Errorf_w ''granting DNS permissions: %w'' [] err),
                     [store_GetApplication_call (appName opts), envIdentity_Get_call] @ calls0)
                | (None, calls0) \<Rightarrow>
                    Execute_register_and_upload d opts app envCaller
                      ([store_GetApplication_call (appName opts), envIdentity_Get_call] @ calls0))))"

subsection \<open>Reading the calls\<close>

text \<open>The calls made after the last call to the deployer.\<close>

fun is_deploy_call :: "call \<Rightarrow> bool" where
  "is_deploy_call (DeployAndRenderEnvironment_call input) = True"
| "is_deploy_call c = False"

definition calls_after_deploy :: "call list \<Rightarrow> call list" where
  "calls_after_deploy calls = rev (takeWhile (\<lambda>c. \<not> is_deploy_call c) (rev calls))"

text \<open>
  A role is tagged when its tags can be listed and hold the environment tag. One best-effort
  deletion of a role lists its tags and asks for the deletion only of a tagged role.
\<close>

definition role_tagged :: "deps \<Rightarrow> string \<Rightarrow> bool" where
  "role_tagged d roleName =
     (case iam_ListRoleTags d roleName of
        Inl err \<Rightarrow> False
      | Inr tags \<Rightarrow> tags deploy_EnvTagKey \<noteq> None)"

definition role_cleanup :: "deps \<Rightarrow> string \<Rightarrow> call list" where
  "role_cleanup d roleName =
     (if role_tagged d roleName then [ListRoleTags_call roleName, DeleteRole_call roleName]
      else [ListRoleTags_call roleName])"

section \<open>Concrete inputs\<close>

text \<open>
  A store whose parameters decode to environments of the application \<open>demo\<close>: the stored text
  is the environment's name, followed by \<open>:prod\<close> for a production environment.
\<close>

definition demo_env :: "string \<Rightarrow> bool \<Rightarrow> Environment" where
  "demo_env n p =
     \<lparr>Environment.App = ''demo'', Name = n, Region = ''us-west-2'', AccountID = ''123456789012'',
      Prod = p, RegistryURL = [], ExecutionRoleARN = [], ManagerRoleARN = [],
      CustomConfig = None\<rparr>"

definition demo_Store :: "string list \<Rightarrow> (string \<rightharpoonup> string, unit) Store" where
  "demo_Store stored =
     \<lparr>GetApplication =
        (\<lambda>c app. if app = ''demo'' then Inr () else Inl (other_error ''no such application'')),
      marshal = (\<lambda>e. Inr (Environment.Name e @ (if Environment.Prod e then '':prod'' else []))),
      json_Unmarshal =
        (\<lambda>v. if v = ''prod:prod'' then Inr (demo_env ''prod'' True) else Inr (demo_env v False)),
      ssmClient_PutParameter = ssm_PutParameter,
      listParams = (\<lambda>c path. Inr stored),
      fmtEnvParamPath = ''/copilot/applications/%s/environments/%s'',
      rootEnvParamPath = ''/copilot/applications/%s/environments/''\<rparr>"

text \<open>
  A template engine whose templates are the lists of the names attached to them. The file of
  the fragment \<open>missing\<close> does not exist, and execution needs every fragment of the catalog.
\<close>

definition demo_Template :: "string \<Rightarrow> (string list, string, unit) Template" where
  "demo_Template missing =
     \<lparr>parse = (\<lambda>n path. if n = missing then Inl (other_error ''file does not exist'') else Inr [n]),
      Tree = (\<lambda>tpl. concat tpl),
      AddParseTree = (\<lambda>tpl n tree. Inr (tpl @ [n])),
      Execute = (\<lambda>tpl d. if set partialsWorkloadCFTemplateNames \<subseteq> set tpl
                           then Inr ''Resources:''
                           else Inl (other_error ''template not defined'')),
      fmt_v = (\<lambda>d. ''{}'')\<rparr>"

definition demo_WorkloadOpts :: WorkloadOpts where
  "demo_WorkloadOpts =
     \<lparr>Storage = Some \<lparr>Ephemeral = None,
                       ManagedVolumeInfo =
                         Some \<lparr>ManagedVolumeCreationInfo.Name = Some ''data'', DirName = None,
                               UID = None, GID = None\<rparr>\<rparr>,
      Network = \<lparr>AssignPublicIP = ''DISABLED'', SubnetsType = ''PrivateSubnets'',
                 SecurityGroups = None\<rparr>,
      WorkloadType = ''Load Balanced Web Service''\<rparr>"

definition demo_Topic :: Topic where
  "demo_Topic =
     \<lparr>Topic.Name = Some ''orders'', Region = ''us-west-2'', Partition = ''aws'',
      AccountID = ''123456789012'', App = ''demo'', Env = ''test'', Svc = ''api''\<rparr>"

text \<open>
  The options of \<open>env init --app demo --name test\<close>, with the default-configuration flag and
  the flags of the VPC as given.
\<close>

definition no_importVPC :: importVPCVars where
  "no_importVPC = \<lparr>importVPCVars.ID = [], PublicSubnetIDs = None, PrivateSubnetIDs = None\<rparr>"

definition import_vpc1 :: importVPCVars where
  "import_vpc1 = \<lparr>importVPCVars.ID = ''vpc-1'', PublicSubnetIDs = None, PrivateSubnetIDs = None\<rparr>"

definition no_adjustVPC :: adjustVPCVars where
  "no_adjustVPC =
     \<lparr>adjustVPCVars.CIDR = emptyIPNet, AZs = None, PublicSubnetCIDRs = None,
      PrivateSubnetCIDRs = None\<rparr>"

definition demo_opts :: "bool \<Rightarrow> importVPCVars \<Rightarrow> adjustVPCVars \<Rightarrow> initEnvOpts" where
  "demo_opts dflt imp adj =
     \<lparr>appName = ''demo'', name = ''test'', profile = ''default'', isProduction = False,
      defaultConfig = dflt, importVPC = imp, adjustVPC = adj,
      tempCreds = \<lparr>AccessKeyID = [], SecretAccessKey = [], SessionToken = []\<rparr>,
      region = [], sess_Config_Region = Some ''us-west-2''\<rparr>"


definition demo_app :: Application where
  "demo_app =
     \<lparr>Application.Name = ''demo'', AccountID = ''123456789012'', Domain = [], Tags = Map.empty,
      RequiresDNSDelegation = False\<rparr>"

definition demo_caller :: Caller where
  "demo_caller = \<lparr>Account = ''123456789012'', RootUserARN = ''arn:aws:iam::123456789012:root''\<rparr>"

text \<open>
  Collaborators for the application \<open>demo\<close>: no environment is stored and no stack exists; of
  the two roles of \<open>demo-test\<close> only the execution role carries the environment tag; the
  deployer answers \<open>deployed\<close>; the VPC has the public and private subnets given.
\<close>

definition demo_deps ::
  "error option \<Rightarrow> string slice \<times> error option \<Rightarrow> string slice \<times> error option \<Rightarrow> deps" where
  "demo_deps deployed publicSubnets privateSubnets =
     \<lparr>profileFlag = ''profile'',
      accessKeyIDFlag = ''aws-access-key-id'',
      secretAccessKeyFlag = ''aws-secret-access-key'',
      sessionTokenFlag = ''aws-session-token'',
      validateEnvironmentName = (\<lambda>n. None),
      color_HighlightUserInput = (\<lambda>n. n),
      stack_NameForEnv = (\<lambda>app env. app @ ''-'' @ env),
      deploy_LatestEnvTemplateVersion = ''v1.0.0'',
      store_GetApplication = (\<lambda>n. Inr demo_app),
      store_GetEnvironment = (\<lambda>app env. Inl (ErrNoSuchEnvironment app env)),
      store_CreateEnvironment = (\<lambda>env. None),
      envIdentity_Get = Inr demo_caller,
      identity_Get = Inr demo_caller,
      iam_CreateECSServiceLinkedRole = None,
      iam_ListRoleTags =
        (\<lambda>r. if r = ''demo-test-CFNExecutionRole''
             then Inr [deploy_EnvTagKey \<mapsto> ''test''] else Inr Map.empty),
      iam_DeleteRole = (\<lambda>r. None),
      cfn_Exists = (\<lambda>n. Inr False),
      appDeployer_AddEnvToApp = (\<lambda>x. None),
      appDeployer_DelegateDNSPermissions = (\<lambda>app acc. None),
      appCFN_GetAppResourcesByRegion = (\<lambda>app r. Inr \<lparr>S3Bucket = ''demo-bucket''\<rparr>),
      newS3 = (\<lambda>r. None),
      uploader_UploadEnvironmentCustomResources = (\<lambda>b. Inr Map.empty),
      envDeployer_DeployAndRenderEnvironment = (\<lambda>input. deployed),
      envDeployer_GetEnvironment = (\<lambda>app env. Inr (demo_env env True)),
      selVPC_VPC = Inr ''vpc-1'',
      selVPC_Subnets = (\<lambda>input. if IsPublic input then publicSubnets else privateSubnets),
      ec2Client_HasDNSSupport = (\<lambda>v. Inr True)\<rparr>"


section \<open>Properties of the template package\<close>

text \<open>
  C8: for every topic, \<open>ARN\<close> is the fixed pattern \<open>arn:P:sns:R:A:app-env-svc-name\<close> with
  its seven places filled, in this order, by the partition, the region, the account, the
  application, the environment, the workload and the topic's name (the empty string when the
  name is nil).
\<close>

theorem Topic_ARN_pattern:
  "ARN t = ''arn:'' @ Topic.Partition t @ '':sns:'' @ Topic.Region t @ '':'' @ Topic.AccountID t
             @ '':'' @ Topic.App t @ ''-'' @ Topic.Env t @ ''-'' @ Topic.Svc t
             @ ''-'' @ aws_StringValue (Topic.Name t)"
  by (simp add: ARN_def snsARNPattern_def)

theorem Topic_ARN_pattern_witness:
  "ARN demo_Topic = ''arn:aws:sns:us-west-2:123456789012:demo-test-api-orders''"
  using Topic_ARN_pattern [of demo_Topic]
  by (simp add: demo_Topic_def aws_StringValue_def)

text \<open>
  C4: for a load-balanced web service placed on private subnets whose storage asks for a
  managed EFS, \<open>envControllerParameters\<close> is exactly the two load-balancer names, then the
  networking name, then the storage name. For every workload the list is made of the three
  groups in that order, and the names of a group are in the list if and only if the group's
  condition holds.
\<close>

theorem envControllerParameters_fixed_order:
  "(WorkloadType w = ''Load Balanced Web Service''
      \<and> SubnetsType (Network w) = PrivateSubnetsPlacement
      \<and> (\<exists>st. Storage w = Some st \<and> requiresEFSCreation st)
     \<longrightarrow> envControllerParameters w =
           [''ALBWorkloads,'', ''Aliases,'', ''NATWorkloads,'', ''EFSWorkloads,''])
   \<and> envControllerParameters w =
       (if WorkloadType w = ''Load Balanced Web Service''
        then [''ALBWorkloads,'', ''Aliases,''] else [])
       @ (if SubnetsType (Network w) = ''PrivateSubnets'' then [''NATWorkloads,''] else [])
       @ (if \<exists>st. Storage w = Some st \<and> ManagedVolumeInfo st \<noteq> None
          then [''EFSWorkloads,''] else [])
   \<and> (''ALBWorkloads,'' \<in> set (envControllerParameters w)
        \<longleftrightarrow> WorkloadType w = ''Load Balanced Web Service'')
   \<and> (''Aliases,'' \<in> set (envControllerParameters w)
        \<longleftrightarrow> WorkloadType w = ''Load Balanced Web Service'')
   \<and> (''NATWorkloads,'' \<in> set (envControllerParameters w)
        \<longleftrightarrow> SubnetsType (Network w) = ''PrivateSubnets'')
   \<and> (''EFSWorkloads,'' \<in> set (envControllerParameters w)
        \<longleftrightarrow> (\<exists>st. Storage w = Some st \<and> ManagedVolumeInfo st \<noteq> None))"
  by (auto simp: envControllerParameters_def Let_def requiresEFSCreation_def
        PrivateSubnetsPlacement_def split: option.splits)

theorem envControllerParameters_fixed_order_witness:
  "WorkloadType demo_WorkloadOpts = ''Load Balanced Web Service''
   \<and> SubnetsType (Network demo_WorkloadOpts) = PrivateSubnetsPlacement
   \<and> (\<exists>st. Storage demo_WorkloadOpts = Some st \<and> requiresEFSCreation st)
   \<and> envControllerParameters demo_WorkloadOpts =
       [''ALBWorkloads,'', ''Aliases,'', ''NATWorkloads,'', ''EFSWorkloads,'']"
  using envControllerParameters_fixed_order [of demo_WorkloadOpts]
  by (simp add: demo_WorkloadOpts_def PrivateSubnetsPlacement_def requiresEFSCreation_def)

subsection \<open>Rendering is all or nothing\<close>

lemma addPartials_attached:
  "addPartials t ns tpl = Inr final \<longleftrightarrow> attached t ns tpl final"
  by (induction ns arbitrary: tpl) (auto split: sum.splits)

lemma attached_parse:
  "attached t ns tpl final \<Longrightarrow> n \<in> set ns \<Longrightarrow>
     \<exists>nested. parse t n (Sprintf fmtWkldPartialsCFTemplatePath [n]) = Inr nested"
  by (induction ns arbitrary: tpl) auto

lemma addPartials_parse_fails:
  "n \<in> set ns \<Longrightarrow> parse t n (Sprintf fmtWkldPartialsCFTemplatePath [n]) = Inl e \<Longrightarrow>
     \<exists>e'. addPartials t ns tpl = Inl e'"
  by (induction ns arbitrary: tpl) (auto split: sum.splits)

text \<open>
  C7: if loading or parsing a fragment of the catalog fails, \<open>parseWkld\<close> returns an error and
  no content. When it returns a content, every fragment of the catalog was loaded, the
  fragments were attached to the base template one after the other, and the content is what
  the execution of the resulting template over the data wrote; so a failed attachment or a
  failed execution (a document that names a fragment nobody declared) gives no content either.
\<close>

theorem parseWkld_all_or_nothing:
  "(\<forall>n e. n \<in> set partialsWorkloadCFTemplateNames
            \<and> parse t n (Sprintf fmtWkldPartialsCFTemplatePath [n]) = Inl e
          \<longrightarrow> (\<exists>e'. parseWkld t tname wkldDirName data = Inl e'))
   \<and> (\<forall>c. parseWkld t tname wkldDirName data = Inr c
          \<longrightarrow> (\<forall>n \<in> set partialsWorkloadCFTemplateNames.
                 \<exists>nested. parse t n (Sprintf fmtWkldPartialsCFTemplatePath [n]) = Inr nested)
              \<and> (\<exists>base final buf.
                   parse t ''base'' (Sprintf fmtWkldCFTemplatePath [wkldDirName, tname]) = Inr base
                   \<and> attached t partialsWorkloadCFTemplateNames base final
                   \<and> Template.Execute t final data = Inr buf
                   \<and> c = Content buf))"
proof (intro conjI allI impI)
  fix n e
  assume h: "n \<in> set partialsWorkloadCFTemplateNames
              \<and> parse t n (Sprintf fmtWkldPartialsCFTemplatePath [n]) = Inl e"
  show "\<exists>e'. parseWkld t tname wkldDirName data = Inl e'"
  proof (cases "parse t ''base'' (Sprintf fmtWkldCFTemplatePath [wkldDirName, tname])")
    case (Inl err)
    then show ?thesis by (simp add: parseWkld_def)
  next
    case (Inr tpl)
    from h have "\<exists>e'. addPartials t partialsWorkloadCFTemplateNames tpl = Inl e'"
      by (intro addPartials_parse_fails [of n _ t e]) simp_all
    then obtain e' where "addPartials t partialsWorkloadCFTemplateNames tpl = Inl e'" ..
    with Inr show ?thesis by (simp add: parseWkld_def)
  qed
next
  fix c
  assume ok: "parseWkld t tname wkldDirName data = Inr c"
  then obtain base final buf where
    b: "parse t ''base'' (Sprintf fmtWkldCFTemplatePath [wkldDirName, tname]) = Inr base" and
    a: "addPartials t partialsWorkloadCFTemplateNames base = Inr final" and
    x: "Template.Execute t final data = Inr buf" and c: "c = Content buf"
    by (auto simp: parseWkld_def split: sum.splits)
  from a have att: "attached t partialsWorkloadCFTemplateNames base final"
    by (simp add: addPartials_attached)
  show "\<forall>n \<in> set partialsWorkloadCFTemplateNames.
          \<exists>nested. parse t n (Sprintf fmtWkldPartialsCFTemplatePath [n]) = Inr nested"
    by (intro ballI) (rule attached_parse [OF att])
  show "\<exists>base final buf.
          parse t ''base'' (Sprintf fmtWkldCFTemplatePath [wkldDirName, tname]) = Inr base
          \<and> attached t partialsWorkloadCFTemplateNames base final
          \<and> Template.Execute t final data = Inr buf \<and> c = Content buf"
    by (intro exI conjI) (rule b, rule att, rule x, rule c)
qed

lemma demo_Template_missing_nlb:
  "parseWkld (demo_Template ''nlb'') ''lb-web'' servicesDirName () =
     Inl (other_error ''file does not exist'')"
  by (simp add: parseWkld_def demo_Template_def partialsWorkloadCFTemplateNames_def)

lemma demo_Template_complete:
  "parseWkld (demo_Template []) ''lb-web'' servicesDirName () = Inr (Content ''Resources:'')"
  by (simp add: parseWkld_def demo_Template_def partialsWorkloadCFTemplateNames_def)

theorem parseWkld_all_or_nothing_witness:
  "''nlb'' \<in> set partialsWorkloadCFTemplateNames
   \<and> parse (demo_Template ''nlb'') ''nlb'' (Sprintf fmtWkldPartialsCFTemplatePath [''nlb''])
       = Inl (other_error ''file does not exist'')
   \<and> (\<exists>e'. parseWkld (demo_Template ''nlb'') ''lb-web'' servicesDirName () = Inl e')
   \<and> parseWkld (demo_Template []) ''lb-web'' servicesDirName () = Inr (Content ''Resources:'')
   \<and> (\<exists>base final.
        parse (demo_Template []) ''base'' (Sprintf fmtWkldCFTemplatePath [servicesDirName, ''lb-web''])
          = Inr base
        \<and> attached (demo_Template []) partialsWorkloadCFTemplateNames base final
        \<and> Template.Execute (demo_Template []) final () = Inr ''Resources:'')"
proof -
  have m: "''nlb'' \<in> set partialsWorkloadCFTemplateNames"
    by (simp add: partialsWorkloadCFTemplateNames_def)
  have p: "parse (demo_Template ''nlb'') ''nlb'' (Sprintf fmtWkldPartialsCFTemplatePath [''nlb''])
             = Inl (other_error ''file does not exist'')"
    by (simp add: demo_Template_def)
  from parseWkld_all_or_nothing [of "demo_Template ''nlb''" "''lb-web''" servicesDirName "()"] m p
  have f: "\<exists>e'. parseWkld (demo_Template ''nlb'') ''lb-web'' servicesDirName () = Inl e'"
    by blast
  from parseWkld_all_or_nothing [of "demo_Template []" "''lb-web''" servicesDirName "()"]
    demo_Template_complete
  have g: "\<exists>base final buf.
        parse (demo_Template []) ''base'' (Sprintf fmtWkldCFTemplatePath [servicesDirName, ''lb-web''])
          = Inr base
        \<and> attached (demo_Template []) partialsWorkloadCFTemplateNames base final
        \<and> Template.Execute (demo_Template []) final () = Inr buf
        \<and> Content ''Resources:'' = Content buf"
    by blast
  then have g': "\<exists>base final.
        parse (demo_Template []) ''base'' (Sprintf fmtWkldCFTemplatePath [servicesDirName, ''lb-web''])
          = Inr base
        \<and> attached (demo_Template []) partialsWorkloadCFTemplateNames base final
        \<and> Template.Execute (demo_Template []) final () = Inr ''Resources:''"
    by auto
  from m p f demo_Template_complete g' show ?thesis by (intro conjI)
qed

section \<open>Properties of the environment record store\<close>

text \<open>
  C2: on the parameter store, let a call of \<open>CreateEnvironment\<close> have returned no error. A
  second call for a record with the same application and name, while the application exists
  and the record serialises, returns no error and leaves the store as it was: the store
  answers that the parameter exists and nothing is written. The key holds a value after the
  first call, and where the first call created it, that value is the first record's.
\<close>

theorem CreateEnvironment_first_write_wins:
  assumes ssm: "ssmClient_PutParameter s = ssm_PutParameter"
      and first: "CreateEnvironment s c env1 = (None, c1)"
      and key: "Environment.App env2 = Environment.App env1
                \<and> Environment.Name env2 = Environment.Name env1"
      and app: "GetApplication s c1 (Environment.App env2) = Inr a"
      and ser: "marshal s env2 = Inr data2"
  shows "CreateEnvironment s c1 env2 = (None, c1)
         \<and> (\<exists>stored. c1 (Sprintf (fmtEnvParamPath s) [Environment.App env1, Environment.Name env1])
                        = Some stored
                      \<and> (c (Sprintf (fmtEnvParamPath s) [Environment.App env1, Environment.Name env1])
                            = None \<longrightarrow> marshal s env1 = Inr stored))"
proof -
  let ?path = "Sprintf (fmtEnvParamPath s) [Environment.App env1, Environment.Name env1]"
  from first ssm have stored:
    "\<exists>stored. c1 ?path = Some stored \<and> (c ?path = None \<longrightarrow> marshal s env1 = Inr stored)"
    by (auto simp: CreateEnvironment_def ssm_PutParameter_def Let_def
          split: sum.splits option.splits prod.splits if_splits error.splits)
  then have ex: "c1 ?path \<noteq> None" by auto
  have "CreateEnvironment s c1 env2 = (None, c1)"
    using ssm key app ser ex
    by (simp add: CreateEnvironment_def ssm_PutParameter_def Let_def)
  with stored show ?thesis by simp
qed

lemma demo_Store_first_create:
  "CreateEnvironment (demo_Store []) Map.empty (demo_env ''test'' False) =
     (None, [''/copilot/applications/demo/environments/test'' \<mapsto> ''test''])"
  by (simp add: CreateEnvironment_def demo_Store_def demo_env_def ssm_PutParameter_def)

theorem CreateEnvironment_first_write_wins_witness:
  "ssmClient_PutParameter (demo_Store []) = ssm_PutParameter
   \<and> CreateEnvironment (demo_Store []) Map.empty (demo_env ''test'' False) =
       (None, [''/copilot/applications/demo/environments/test'' \<mapsto> ''test''])
   \<and> Environment.App (demo_env ''test'' True) = Environment.App (demo_env ''test'' False)
   \<and> Environment.Name (demo_env ''test'' True) = Environment.Name (demo_env ''test'' False)
   \<and> GetApplication (demo_Store [])
        [''/copilot/applications/demo/environments/test'' \<mapsto> ''test'']
        (Environment.App (demo_env ''test'' True)) = Inr ()
   \<and> marshal (demo_Store []) (demo_env ''test'' True) = Inr ''test:prod''
   \<and> CreateEnvironment (demo_Store [])
        [''/copilot/applications/demo/environments/test'' \<mapsto> ''test'']
        (demo_env ''test'' True) =
       (None, [''/copilot/applications/demo/environments/test'' \<mapsto> ''test''])"
proof -
  have h1: "ssmClient_PutParameter (demo_Store []) = ssm_PutParameter"
    by (simp add: demo_Store_def)
  have h3: "Environment.App (demo_env ''test'' True) = Environment.App (demo_env ''test'' False)
            \<and> Environment.Name (demo_env ''test'' True) = Environment.Name (demo_env ''test'' False)"
    by (simp add: demo_env_def)
  have h4: "GetApplication (demo_Store [])
              [''/copilot/applications/demo/environments/test'' \<mapsto> ''test'']
              (Environment.App (demo_env ''test'' True)) = Inr ()"
    by (simp add: demo_Store_def demo_env_def)
  have h5: "marshal (demo_Store []) (demo_env ''test'' True) = Inr ''test:prod''"
    by (simp add: demo_Store_def demo_env_def)
  from CreateEnvironment_first_write_wins [OF h1 demo_Store_first_create h3 h4 h5]
  have "CreateEnvironment (demo_Store [])
          [''/copilot/applications/demo/environments/test'' \<mapsto> ''test'']
          (demo_env ''test'' True) =
        (None, [''/copilot/applications/demo/environments/test'' \<mapsto> ''test''])"
    by simp
  with h1 demo_Store_first_create h3 h4 h5 show ?thesis by simp
qed

text \<open>
  C1: the store holds the non-production environments \<open>dev\<close> and \<open>test\<close> and the production
  environment \<open>prod\<close>. \<open>ListEnvironments\<close> returns \<open>test\<close>, \<open>dev\<close>, \<open>prod\<close>: the
  non-production environments come first, but in descending order of their names. The second
  sort asks \<open>less(i, j)\<close> about the element at \<open>i\<close> alone, so the insertion sort moves every
  non-production environment to the front of the slice, past the non-production environments
  that were before it.
\<close>

theorem ListEnvironments_nonprod_descending:
  "ListEnvironments (demo_Store [''dev'', ''prod:prod'', ''test'']) symMergePasses Map.empty ''demo''
     = Inr [demo_env ''test'' False, demo_env ''dev'' False, demo_env ''prod'' True]"
  by (simp add: ListEnvironments_def demo_Store_def SliceStable_def insertionSort_def swap_def
        demo_env_def)

section \<open>Properties of the command\<close>

subsection \<open>Validation of the customised resources\<close>











subsection \<open>The subnets of an imported VPC\<close>

text \<open>
  C6: let the VPC be known (given by its flag, or selected) and have DNS support. When the
  public subnets are to be discovered and exactly one is returned, \<open>askImportResources\<close>
  returns an error (the error about two public subnets when the selector reported none). When
  the selector finds no public subnet (no subnets and the error \<open>ErrSubnetsNotFound\<close>), the
  warning is printed and the resolution goes on: with two or more private subnets, given or
  discovered, it returns no error. When the private subnets are to be discovered and fewer
  than two are returned (none, or exactly one), it returns an error.
\<close>

theorem askImportResources_subnet_counts:
  assumes vpc: "(if importVPCVars.ID (importVPC opts) = [] then selVPC_VPC d
                 else Inr (importVPCVars.ID (importVPC opts))) = Inr vpc"
      and dns: "ec2Client_HasDNSSupport d vpc = Inr True"
  shows
   "(importVPCVars.PublicSubnetIDs (importVPC opts) = None
       \<and> len (fst (selVPC_Subnets d \<lparr>VPCID = vpc, IsPublic = True\<rparr>)) = 1
      \<longrightarrow> fst (askImportResources d opts) \<noteq> None
          \<and> (snd (selVPC_Subnets d \<lparr>VPCID = vpc, IsPublic = True\<rparr>) = None
               \<longrightarrow> fst (askImportResources d opts) =
                     Some (errors_New ''select public subnets: at least two public subnets must be selected to enable Load Balancing'')))
    \<and> (importVPCVars.PublicSubnetIDs (importVPC opts) = None
         \<and> selVPC_Subnets d \<lparr>VPCID = vpc, IsPublic = True\<rparr> = (subs, Some e)
         \<and> errors_Is e ErrSubnetsNotFound \<and> len subs = 0
        \<longrightarrow> (importVPCVars.PrivateSubnetIDs (importVPC opts) = None
               \<and> selVPC_Subnets d \<lparr>VPCID = vpc, IsPublic = False\<rparr> = (Some ps, None)
               \<and> 2 \<le> length ps
              \<longrightarrow> askImportResources d opts =
                    (None,
                     opts\<lparr>importVPC := \<lparr>importVPCVars.ID = vpc, PublicSubnetIDs = subs,
                                          PrivateSubnetIDs = Some ps\<rparr>\<rparr>,
                     [Warningf_NoExistingSubnets vpc]))
            \<and> (importVPCVars.PrivateSubnetIDs (importVPC opts) = Some ps
              \<longrightarrow> askImportResources d opts =
                    (None,
                     opts\<lparr>importVPC := \<lparr>importVPCVars.ID = vpc, PublicSubnetIDs = subs,
                                          PrivateSubnetIDs = Some ps\<rparr>\<rparr>,
                     [Warningf_NoExistingSubnets vpc])))
    \<and> (importVPCVars.PrivateSubnetIDs (importVPC opts) = None
         \<and> len (fst (selVPC_Subnets d \<lparr>VPCID = vpc, IsPublic = False\<rparr>)) < 2
        \<longrightarrow> fst (askImportResources d opts) \<noteq> None)"
proof -
  define o1 where "o1 = opts\<lparr>importVPC := (importVPC opts)\<lparr>importVPCVars.ID := vpc\<rparr>\<rparr>"
  have o1: "importVPCVars.ID (importVPC o1) = vpc"
    "importVPCVars.PublicSubnetIDs (importVPC o1) = importVPCVars.PublicSubnetIDs (importVPC opts)"
    "importVPCVars.PrivateSubnetIDs (importVPC o1) = importVPCVars.PrivateSubnetIDs (importVPC opts)"
    by (simp_all add: o1_def)
  have step1: "(if importVPCVars.ID (importVPC opts) = [] then
              (case selVPC_VPC d of
                 Inl err \<Rightarrow>
                   Inl (fmt_Errorf_w ''select VPC: %w'' [] err,
                        if err = ErrVPCNotFound then [Errorf_NoExistingVPCs] else [])
               | Inr vpcID \<Rightarrow>
                   Inr (opts\<lparr>importVPC := (importVPC opts)\<lparr>importVPCVars.ID := vpcID\<rparr>\<rparr>))
            else Inr opts) = Inr o1"
    using vpc by (auto simp: o1_def split: if_splits)
  show ?thesis
    unfolding askImportResources_def step1
    using dns
    apply (simp add: o1 del: errors_Is.simps)
    apply (intro conjI impI)
    apply (auto simp: o1 o1_def len_def split: prod.splits option.splits sum.splits if_splits)
    done
qed

theorem askImportResources_subnet_counts_witness:
  "ec2Client_HasDNSSupport
     (demo_deps None (Some [''subnet-a''], None) (Some [''subnet-p1'', ''subnet-p2''], None)) ''vpc-1''
     = Inr True
   \<and> importVPCVars.PublicSubnetIDs (importVPC (demo_opts False import_vpc1 no_adjustVPC)) = None
   \<and> len (fst (selVPC_Subnets
                  (demo_deps None (Some [''subnet-a''], None) (Some [''subnet-p1'', ''subnet-p2''], None))
                  \<lparr>VPCID = ''vpc-1'', IsPublic = True\<rparr>)) = 1
   \<and> fst (askImportResources
            (demo_deps None (Some [''subnet-a''], None) (Some [''subnet-p1'', ''subnet-p2''], None))
            (demo_opts False import_vpc1 no_adjustVPC)) =
       Some (errors_New ''select public subnets: at least two public subnets must be selected to enable Load Balancing'')
   \<and> selVPC_Subnets
        (demo_deps None (None, Some ErrSubnetsNotFound) (Some [''subnet-p1'', ''subnet-p2''], None))
        \<lparr>VPCID = ''vpc-1'', IsPublic = True\<rparr> = (None, Some ErrSubnetsNotFound)
   \<and> errors_Is ErrSubnetsNotFound ErrSubnetsNotFound
   \<and> askImportResources
        (demo_deps None (None, Some ErrSubnetsNotFound) (Some [''subnet-p1'', ''subnet-p2''], None))
        (demo_opts False import_vpc1 no_adjustVPC) =
       (None,
        (demo_opts False import_vpc1 no_adjustVPC)
          \<lparr>importVPC := \<lparr>importVPCVars.ID = ''vpc-1'', PublicSubnetIDs = None,
                          PrivateSubnetIDs = Some [''subnet-p1'', ''subnet-p2'']\<rparr>\<rparr>,
        [Warningf_NoExistingSubnets ''vpc-1''])
   \<and> importVPCVars.PrivateSubnetIDs (importVPC (demo_opts False import_vpc1 no_adjustVPC)) = None
   \<and> len (fst (selVPC_Subnets
                  (demo_deps None (Some [''subnet-a'', ''subnet-b''], None) (Some [''subnet-p1''], None))
                  \<lparr>VPCID = ''vpc-1'', IsPublic = False\<rparr>)) < 2
   \<and> fst (askImportResources
            (demo_deps None (Some [''subnet-a'', ''subnet-b''], None) (Some [''subnet-p1''], None))
            (demo_opts False import_vpc1 no_adjustVPC)) \<noteq> None
   \<and> len (fst (selVPC_Subnets
                  (demo_deps None (Some [''subnet-a'', ''subnet-b''], None)
                     (None, Some ErrSubnetsNotFound))
                  \<lparr>VPCID = ''vpc-1'', IsPublic = False\<rparr>)) < 2
   \<and> fst (askImportResources
            (demo_deps None (Some [''subnet-a'', ''subnet-b''], None) (None, Some ErrSubnetsNotFound))
            (demo_opts False import_vpc1 no_adjustVPC)) \<noteq> None"
proof -
  let ?o = "demo_opts False import_vpc1 no_adjustVPC"
  have v: "(if importVPCVars.ID (importVPC ?o) = [] then selVPC_VPC (demo_deps x y z)
            else Inr (importVPCVars.ID (importVPC ?o))) = Inr ''vpc-1''" for x y z
    by (simp add: demo_opts_def import_vpc1_def)
  have n: "ec2Client_HasDNSSupport (demo_deps x y z) ''vpc-1'' = Inr True" for x y z
    by (simp add: demo_deps_def)
  have p: "importVPCVars.PublicSubnetIDs (importVPC ?o) = None"
          "importVPCVars.PrivateSubnetIDs (importVPC ?o) = None"
    by (simp_all add: demo_opts_def import_vpc1_def)
  have s: "selVPC_Subnets (demo_deps x y z) \<lparr>VPCID = ''vpc-1'', IsPublic = True\<rparr> = y"
          "selVPC_Subnets (demo_deps x y z) \<lparr>VPCID = ''vpc-1'', IsPublic = False\<rparr> = z" for x y z
    by (simp_all add: demo_deps_def)
  show ?thesis
    using askImportResources_subnet_counts
            [OF v n, of None "(Some [''subnet-a''], None)"
               "(Some [''subnet-p1'', ''subnet-p2''], None)"]
          askImportResources_subnet_counts
            [OF v n, of None "(None, Some ErrSubnetsNotFound)"
               "(Some [''subnet-p1'', ''subnet-p2''], None)" None ErrSubnetsNotFound
               "[''subnet-p1'', ''subnet-p2'']"]
          askImportResources_subnet_counts
            [OF v n, of None "(Some [''subnet-a'', ''subnet-b''], None)" "(Some [''subnet-p1''], None)"]
          askImportResources_subnet_counts
            [OF v n, of None "(Some [''subnet-a'', ''subnet-b''], None)"
               "(None, Some ErrSubnetsNotFound)"]
    by (simp add: n p s len_def)
qed

subsection \<open>Deployment failures and the cleanup of the roles\<close>

lemma tryDeletingEnvRoles_cleanup:
  "tryDeletingEnvRoles d app env =
     role_cleanup d (stack_NameForEnv d app env @ ''-CFNExecutionRole'')
     @ role_cleanup d (stack_NameForEnv d app env @ ''-EnvManagerRole'')"
  by (simp add: tryDeletingEnvRoles_def role_cleanup_def role_tagged_def split: sum.splits)

lemma role_cleanup_no_deploy: "c \<in> set (role_cleanup d r) \<Longrightarrow> \<not> is_deploy_call c"
  by (auto simp: role_cleanup_def split: if_splits)

lemma calls_after_deploy_last:
  "(\<And>c. c \<in> set post \<Longrightarrow> \<not> is_deploy_call c) \<Longrightarrow>
     calls_after_deploy (pre @ DeployAndRenderEnvironment_call input # post) = post"
  by (simp add: calls_after_deploy_def takeWhile_tail [where l = "rev pre"]
        takeWhile_eq_all_conv [THEN iffD2])

lemma count_role_cleanup:
  "count_list (role_cleanup d r) (ListRoleTags_call r') = (if r = r' then 1 else 0)"
  "count_list (role_cleanup d r) (DeleteRole_call r') = (if r = r' \<and> role_tagged d r then 1 else 0)"
  by (simp_all add: role_cleanup_def)

lemma deployEnv_other_failure:
  assumes "identity_Get d = Inr caller"
      and "cfn_Exists d (stack_NameForEnv d (appName opts) (name opts)) = Inr exists"
      and "envDeployer_DeployAndRenderEnvironment d (deployEnvInput d opts app urls caller) = Some err"
      and "\<not> errors_As_ErrStackAlreadyExists err"
  shows "\<exists>pre. deployEnv d opts app urls =
           (Some err, pre @ DeployAndRenderEnvironment_call (deployEnvInput d opts app urls caller)
                        # tryDeletingEnvRoles d (appName opts) (name opts))"
proof -
  have c: "fst (cleanUpDanglingRoles d (appName opts) (name opts)) = None"
    using assms(2) by (simp add: cleanUpDanglingRoles_def)
  have "deployEnv d opts app urls =
          (Some err, (identity_Get_call # snd (cleanUpDanglingRoles d (appName opts) (name opts)))
                       @ DeployAndRenderEnvironment_call (deployEnvInput d opts app urls caller)
                       # tryDeletingEnvRoles d (appName opts) (name opts))"
    using assms c by (auto simp: deployEnv_def Let_def split: prod.splits option.splits)
  then show ?thesis by (rule exI)
qed

lemma deployEnv_already_exists:
  assumes "identity_Get d = Inr caller"
      and "cfn_Exists d (stack_NameForEnv d (appName opts) (name opts)) = Inr exists"
      and "envDeployer_DeployAndRenderEnvironment d (deployEnvInput d opts app urls caller) = Some err"
      and "errors_As_ErrStackAlreadyExists err"
  shows "\<exists>pre. deployEnv d opts app urls =
           (None, pre @ DeployAndRenderEnvironment_call (deployEnvInput d opts app urls caller) # [])"
proof -
  have c: "fst (cleanUpDanglingRoles d (appName opts) (name opts)) = None"
    using assms(2) by (simp add: cleanUpDanglingRoles_def)
  have "deployEnv d opts app urls =
          (None, (identity_Get_call # snd (cleanUpDanglingRoles d (appName opts) (name opts)))
                   @ DeployAndRenderEnvironment_call (deployEnvInput d opts app urls caller) # [])"
    using assms c by (auto simp: deployEnv_def Let_def split: prod.splits option.splits)
  then show ?thesis by (rule exI)
qed

lemma Execute_proceeds:
  assumes app: "store_GetApplication d (appName opts) = Inr app"
      and idn: "envIdentity_Get d = Inr envCaller"
      and dns: "RequiresDNSDelegation app \<longrightarrow> Account envCaller = Application.AccountID app
                  \<or> appDeployer_DelegateDNSPermissions d app (Account envCaller) = None"
      and reg: "appDeployer_AddEnvToApp d
                  \<lparr>AddEnvToAppOpts.App = app, EnvName = name opts,
                   EnvRegion = aws_StringValue (sess_Config_Region opts),
                   EnvAccountID = Account envCaller\<rparr> = None"
      and res: "appCFN_GetAppResourcesByRegion d app (aws_StringValue (sess_Config_Region opts))
                  = Inr resources"
      and s3: "newS3 d (aws_StringValue (sess_Config_Region opts)) = None"
      and up: "uploader_UploadEnvironmentCustomResources d (S3Bucket resources) = Inr urls"
      and dep: "deployEnv d opts app urls = (None, dcalls)"
      and get: "envDeployer_GetEnvironment d (appName opts) (name opts) = Inr env"
  shows "\<exists>pre. Execute d opts =
           (map_option (fmt_Errorf_w ''store environment: %w'' [])
              (store_CreateEnvironment d
                 (env\<lparr>Environment.Prod := isProduction opts,
                       CustomConfig := NewCustomizeEnv (importVPCConfig opts) (adjustVPCConfig opts)\<rparr>)),
            pre @ dcalls @
            [envDeployer_GetEnvironment_call (appName opts) (name opts),
             store_CreateEnvironment_call
               (env\<lparr>Environment.Prod := isProduction opts,
                     CustomConfig := NewCustomizeEnv (importVPCConfig opts) (adjustVPCConfig opts)\<rparr>)])"
proof -
  have "\<exists>calls0.
    (if RequiresDNSDelegation app then delegateDNSFromApp d app (Account envCaller) else (None, []))
       = (None, calls0)"
    using dns by (cases "RequiresDNSDelegation app") (auto simp: delegateDNSFromApp_def)
  then obtain calls0 where c0:
    "(if RequiresDNSDelegation app then delegateDNSFromApp d app (Account envCaller) else (None, []))
       = (None, calls0)" ..
  have e3: "\<exists>pre. Execute_deploy_and_store d opts app urls calls =
           (map_option (fmt_Errorf_w ''store environment: %w'' [])
              (store_CreateEnvironment d
                 (env\<lparr>Environment.Prod := isProduction opts,
                       CustomConfig := NewCustomizeEnv (importVPCConfig opts) (adjustVPCConfig opts)\<rparr>)),
            pre @ dcalls @
            [envDeployer_GetEnvironment_call (appName opts) (name opts),
             store_CreateEnvironment_call
               (env\<lparr>Environment.Prod := isProduction opts,
                     CustomConfig := NewCustomizeEnv (importVPCConfig opts) (adjustVPCConfig opts)\<rparr>)])"
    for calls
    using dep get
    by (intro exI [of _ calls])
       (simp add: Execute_deploy_and_store_def Let_def split: option.splits)
  have e2: "\<exists>calls. Execute_register_and_upload d opts app envCaller calls' =
              Execute_deploy_and_store d opts app urls calls" for calls'
    using reg res s3 up
    by (auto simp: Execute_register_and_upload_def addToStackset_def Let_def)
  have e1: "\<exists>calls. Execute d opts = Execute_register_and_upload d opts app envCaller calls"
    using app idn c0 by (auto simp: Execute_def)
  from e1 e2 e3 show ?thesis by metis
qed

text \<open>
  C3: let \<open>deployEnv\<close> reach the deployer (the caller's identity is known and the stack's
  existence was checked) and let the deployment fail with \<open>err\<close>. If \<open>err\<close> is not a
  stack-already-exists error, \<open>deployEnv\<close> returns \<open>err\<close>, and the calls it makes after the
  deployment are one best-effort deletion of the execution role and then one of the manager
  role of the environment's stack: each role's tags are listed once, and its deletion is asked
  for once if it is tagged and never otherwise. If \<open>err\<close> is a stack-already-exists error,
  \<open>deployEnv\<close> returns no error and makes no call after the deployment; \<open>Execute\<close>, when its
  earlier steps succeeded, then gets the environment from the deployer and stores the stamped
  record, and these are its only calls after the deployment.
\<close>

theorem deployEnv_failure_cleanup:
  assumes idn: "identity_Get d = Inr caller"
      and ex: "cfn_Exists d (stack_NameForEnv d (appName opts) (name opts)) = Inr exists"
      and dep: "envDeployer_DeployAndRenderEnvironment d (deployEnvInput d opts app urls caller)
                  = Some err"
  shows
   "(\<not> errors_As_ErrStackAlreadyExists err \<longrightarrow>
       fst (deployEnv d opts app urls) = Some err
     \<and> calls_after_deploy (snd (deployEnv d opts app urls)) =
         role_cleanup d (stack_NameForEnv d (appName opts) (name opts) @ ''-CFNExecutionRole'')
         @ role_cleanup d (stack_NameForEnv d (appName opts) (name opts) @ ''-EnvManagerRole'')
     \<and> (\<forall>r \<in> {stack_NameForEnv d (appName opts) (name opts) @ ''-CFNExecutionRole'',
                stack_NameForEnv d (appName opts) (name opts) @ ''-EnvManagerRole''}.
           count_list (calls_after_deploy (snd (deployEnv d opts app urls))) (ListRoleTags_call r) = 1
         \<and> count_list (calls_after_deploy (snd (deployEnv d opts app urls))) (DeleteRole_call r)
             = (if role_tagged d r then 1 else 0)))
    \<and> (errors_As_ErrStackAlreadyExists err \<longrightarrow>
         fst (deployEnv d opts app urls) = None
       \<and> calls_after_deploy (snd (deployEnv d opts app urls)) = []
       \<and> (store_GetApplication d (appName opts) = Inr app
            \<and> envIdentity_Get d = Inr envCaller
            \<and> (RequiresDNSDelegation app \<longrightarrow> Account envCaller = Application.AccountID app
                  \<or> appDeployer_DelegateDNSPermissions d app (Account envCaller) = None)
            \<and> appDeployer_AddEnvToApp d
                  \<lparr>AddEnvToAppOpts.App = app, EnvName = name opts,
                   EnvRegion = aws_StringValue (sess_Config_Region opts),
                   EnvAccountID = Account envCaller\<rparr> = None
            \<and> appCFN_GetAppResourcesByRegion d app (aws_StringValue (sess_Config_Region opts))
                  = Inr resources
            \<and> newS3 d (aws_StringValue (sess_Config_Region opts)) = None
            \<and> uploader_UploadEnvironmentCustomResources d (S3Bucket resources) = Inr urls
            \<and> envDeployer_GetEnvironment d (appName opts) (name opts) = Inr env
          \<longrightarrow> fst (Execute d opts) =
                map_option (fmt_Errorf_w ''store environment: %w'' [])
                  (store_CreateEnvironment d
                     (env\<lparr>Environment.Prod := isProduction opts,
                           CustomConfig :=
                             NewCustomizeEnv (importVPCConfig opts) (adjustVPCConfig opts)\<rparr>))
              \<and> calls_after_deploy (snd (Execute d opts)) =
                  [envDeployer_GetEnvironment_call (appName opts) (name opts),
                   store_CreateEnvironment_call
                     (env\<lparr>Environment.Prod := isProduction opts,
                           CustomConfig :=
                             NewCustomizeEnv (importVPCConfig opts) (adjustVPCConfig opts)\<rparr>)]))"
proof (intro conjI impI)
  assume other: "\<not> errors_As_ErrStackAlreadyExists err"
  from deployEnv_other_failure [OF idn ex dep other] obtain pre where
    eq: "deployEnv d opts app urls =
           (Some err, pre @ DeployAndRenderEnvironment_call (deployEnvInput d opts app urls caller)
                        # tryDeletingEnvRoles d (appName opts) (name opts))" ..
  show "fst (deployEnv d opts app urls) = Some err" by (simp add: eq)
  have after: "calls_after_deploy (snd (deployEnv d opts app urls)) =
                 tryDeletingEnvRoles d (appName opts) (name opts)"
    unfolding eq snd_conv
    by (rule calls_after_deploy_last)
       (auto simp: tryDeletingEnvRoles_cleanup dest: role_cleanup_no_deploy)
  then show "calls_after_deploy (snd (deployEnv d opts app urls)) =
         role_cleanup d (stack_NameForEnv d (appName opts) (name opts) @ ''-CFNExecutionRole'')
         @ role_cleanup d (stack_NameForEnv d (appName opts) (name opts) @ ''-EnvManagerRole'')"
    by (simp add: tryDeletingEnvRoles_cleanup)
  show "\<forall>r \<in> {stack_NameForEnv d (appName opts) (name opts) @ ''-CFNExecutionRole'',
                stack_NameForEnv d (appName opts) (name opts) @ ''-EnvManagerRole''}.
           count_list (calls_after_deploy (snd (deployEnv d opts app urls))) (ListRoleTags_call r) = 1
         \<and> count_list (calls_after_deploy (snd (deployEnv d opts app urls))) (DeleteRole_call r)
             = (if role_tagged d r then 1 else 0)"
    unfolding after tryDeletingEnvRoles_cleanup
    by (simp add: count_role_cleanup)
next
  assume exists: "errors_As_ErrStackAlreadyExists err"
  from deployEnv_already_exists [OF idn ex dep exists] obtain pre where
    eq: "deployEnv d opts app urls =
           (None, pre @ DeployAndRenderEnvironment_call (deployEnvInput d opts app urls caller) # [])" ..
  show "fst (deployEnv d opts app urls) = None" by (simp add: eq)
  show "calls_after_deploy (snd (deployEnv d opts app urls)) = []"
    unfolding eq snd_conv by (rule calls_after_deploy_last) simp
  assume pre: "store_GetApplication d (appName opts) = Inr app
            \<and> envIdentity_Get d = Inr envCaller
            \<and> (RequiresDNSDelegation app \<longrightarrow> Account envCaller = Application.AccountID app
                  \<or> appDeployer_DelegateDNSPermissions d app (Account envCaller) = None)
            \<and> appDeployer_AddEnvToApp d
                  \<lparr>AddEnvToAppOpts.App = app, EnvName = name opts,
                   EnvRegion = aws_StringValue (sess_Config_Region opts),
                   EnvAccountID = Account envCaller\<rparr> = None
            \<and> appCFN_GetAppResourcesByRegion d app (aws_StringValue (sess_Config_Region opts))
                  = Inr resources
            \<and> newS3 d (aws_StringValue (sess_Config_Region opts)) = None
            \<and> uploader_UploadEnvironmentCustomResources d (S3Bucket resources) = Inr urls
            \<and> envDeployer_GetEnvironment d (appName opts) (name opts) = Inr env"
  let ?env = "env\<lparr>Environment.Prod := isProduction opts,
                   CustomConfig := NewCustomizeEnv (importVPCConfig opts) (adjustVPCConfig opts)\<rparr>"
  from pre have
    "\<exists>pre'. Execute d opts =
       (map_option (fmt_Errorf_w ''store environment: %w'' []) (store_CreateEnvironment d ?env),
        pre' @ (pre @ DeployAndRenderEnvironment_call (deployEnvInput d opts app urls caller) # []) @
        [envDeployer_GetEnvironment_call (appName opts) (name opts),
         store_CreateEnvironment_call ?env])"
    by (intro Execute_proceeds [where app = app and envCaller = envCaller
                                  and resources = resources and urls = urls]) (simp_all add: eq)
  then obtain pre' where
    x: "Execute d opts =
       (map_option (fmt_Errorf_w ''store environment: %w'' []) (store_CreateEnvironment d ?env),
        (pre' @ pre) @ DeployAndRenderEnvironment_call (deployEnvInput d opts app urls caller) #
        [envDeployer_GetEnvironment_call (appName opts) (name opts),
         store_CreateEnvironment_call ?env])"
    by auto
  show "fst (Execute d opts) =
          map_option (fmt_Errorf_w ''store environment: %w'' []) (store_CreateEnvironment d ?env)"
    by (simp add: x)
  show "calls_after_deploy (snd (Execute d opts)) =
          [envDeployer_GetEnvironment_call (appName opts) (name opts),
           store_CreateEnvironment_call ?env]"
    unfolding x snd_conv by (rule calls_after_deploy_last) auto
qed

lemma demo_deps_reach_deployer:
  "identity_Get (demo_deps x y z) = Inr demo_caller"
  "cfn_Exists (demo_deps x y z) stackName = Inr False"
  "envDeployer_DeployAndRenderEnvironment (demo_deps x y z) input = x"
  by (simp_all add: demo_deps_def)

lemma demo_deps_roles:
  "stack_NameForEnv (demo_deps x y z) ''demo'' ''test'' = ''demo-test''"
  "role_cleanup (demo_deps x y z) ''demo-test-CFNExecutionRole'' =
     [ListRoleTags_call ''demo-test-CFNExecutionRole'', DeleteRole_call ''demo-test-CFNExecutionRole'']"
  "role_cleanup (demo_deps x y z) ''demo-test-EnvManagerRole'' =
     [ListRoleTags_call ''demo-test-EnvManagerRole'']"
  by (simp_all add: demo_deps_def role_cleanup_def role_tagged_def)

lemma demo_deps_earlier_steps:
  "store_GetApplication (demo_deps x y z) n = Inr demo_app"
  "envIdentity_Get (demo_deps x y z) = Inr demo_caller"
  "\<not> RequiresDNSDelegation demo_app"
  "appDeployer_AddEnvToApp (demo_deps x y z) opts' = None"
  "appCFN_GetAppResourcesByRegion (demo_deps x y z) demo_app r = Inr \<lparr>S3Bucket = ''demo-bucket''\<rparr>"
  "newS3 (demo_deps x y z) r = None"
  "uploader_UploadEnvironmentCustomResources (demo_deps x y z) b = Inr Map.empty"
  "envDeployer_GetEnvironment (demo_deps x y z) a e = Inr (demo_env e True)"
  by (simp_all add: demo_deps_def demo_app_def)

theorem deployEnv_failure_cleanup_witness:
  "identity_Get (demo_deps (Some (other_error ''boom'')) (None, None) (None, None))
     = Inr demo_caller
   \<and> envDeployer_DeployAndRenderEnvironment
        (demo_deps (Some (other_error ''boom'')) (None, None) (None, None))
        (deployEnvInput (demo_deps (Some (other_error ''boom'')) (None, None) (None, None))
           (demo_opts True no_importVPC no_adjustVPC) demo_app Map.empty demo_caller)
       = Some (other_error ''boom'')
   \<and> \<not> errors_As_ErrStackAlreadyExists (other_error ''boom'')
   \<and> fst (deployEnv (demo_deps (Some (other_error ''boom'')) (None, None) (None, None))
            (demo_opts True no_importVPC no_adjustVPC) demo_app Map.empty)
       = Some (other_error ''boom'')
   \<and> calls_after_deploy
        (snd (deployEnv (demo_deps (Some (other_error ''boom'')) (None, None) (None, None))
                (demo_opts True no_importVPC no_adjustVPC) demo_app Map.empty))
       = [ListRoleTags_call ''demo-test-CFNExecutionRole'',
          DeleteRole_call ''demo-test-CFNExecutionRole'',
          ListRoleTags_call ''demo-test-EnvManagerRole'']
   \<and> errors_As_ErrStackAlreadyExists
        (fmt_Errorf_w ''deploy environment: %w'' [] (ErrStackAlreadyExists ''demo-test''))
   \<and> fst (deployEnv
            (demo_deps (Some (fmt_Errorf_w ''deploy environment: %w'' []
                                (ErrStackAlreadyExists ''demo-test''))) (None, None) (None, None))
            (demo_opts True no_importVPC no_adjustVPC) demo_app Map.empty) = None
   \<and> calls_after_deploy
        (snd (deployEnv
                (demo_deps (Some (fmt_Errorf_w ''deploy environment: %w'' []
                                    (ErrStackAlreadyExists ''demo-test''))) (None, None) (None, None))
                (demo_opts True no_importVPC no_adjustVPC) demo_app Map.empty)) = []
   \<and> fst (Execute
            (demo_deps (Some (fmt_Errorf_w ''deploy environment: %w'' []
                                (ErrStackAlreadyExists ''demo-test''))) (None, None) (None, None))
            (demo_opts True no_importVPC no_adjustVPC)) = None
   \<and> calls_after_deploy
        (snd (Execute
                (demo_deps (Some (fmt_Errorf_w ''deploy environment: %w'' []
                                    (ErrStackAlreadyExists ''demo-test''))) (None, None) (None, None))
                (demo_opts True no_importVPC no_adjustVPC)))
       = [envDeployer_GetEnvironment_call ''demo'' ''test'',
          store_CreateEnvironment_call (demo_env ''test'' False)]"
proof -
  let ?o = "demo_opts True no_importVPC no_adjustVPC"
  let ?d1 = "demo_deps (Some (other_error ''boom'')) (None, None) (None, None)"
  let ?e2 = "fmt_Errorf_w ''deploy environment: %w'' [] (ErrStackAlreadyExists ''demo-test'')"
  let ?d2 = "demo_deps (Some ?e2) (None, None) (None, None)"
  have stamped:
    "(demo_env ''test'' True)\<lparr>Environment.Prod := isProduction ?o,
        CustomConfig := NewCustomizeEnv (importVPCConfig ?o) (adjustVPCConfig ?o)\<rparr>
       = demo_env ''test'' False"
    by (simp add: demo_env_def demo_opts_def NewCustomizeEnv_def importVPCConfig_def
          adjustVPCConfig_def)
  have names: "appName ?o = ''demo''" "name ?o = ''test''"
    by (simp_all add: demo_opts_def)
  have stored: "store_CreateEnvironment ?d2 env = None" for env
    by (simp add: demo_deps_def)
  note a = deployEnv_failure_cleanup
             [of ?d1 demo_caller ?o False demo_app Map.empty "other_error ''boom''",
              OF demo_deps_reach_deployer]
  note b = deployEnv_failure_cleanup
             [of ?d2 demo_caller ?o False demo_app Map.empty ?e2 demo_caller
                 "\<lparr>S3Bucket = ''demo-bucket''\<rparr>" "demo_env ''test'' True",
              OF demo_deps_reach_deployer]
  from a b show ?thesis
    by (simp add: demo_deps_reach_deployer demo_deps_roles demo_deps_earlier_steps stamped
          names stored)
qed

subsection \<open>The custom configuration that is stored\<close>

lemma tryDeletingRoles_calls:
  "c \<in> set (tryDeletingRoles d rs) \<Longrightarrow> (\<exists>r. c = ListRoleTags_call r \<or> c = DeleteRole_call r)"
  by (induction rs) (auto split: sum.splits if_splits)

lemma deployEnv_calls_no_store:
  "store_CreateEnvironment_call env \<notin> set (snd (deployEnv d opts app urls))"
  by (auto simp: deployEnv_def cleanUpDanglingRoles_def tryDeletingEnvRoles_def Let_def
        split: sum.splits option.splits prod.splits if_splits dest: tryDeletingRoles_calls)

lemma Execute_deploy_and_store_stamped:
  assumes "store_CreateEnvironment_call env
             \<in> set (snd (Execute_deploy_and_store d opts app urls calls))"
      and "store_CreateEnvironment_call env \<notin> set calls"
  shows "\<exists>env0. envDeployer_GetEnvironment d (appName opts) (name opts) = Inr env0 \<and>
           env = env0\<lparr>Environment.Prod := isProduction opts,
                      CustomConfig := NewCustomizeEnv (importVPCConfig opts) (adjustVPCConfig opts)\<rparr>"
  using assms deployEnv_calls_no_store [of env d opts app urls]
  by (auto simp: Execute_deploy_and_store_def Let_def split: sum.splits option.splits prod.splits)

lemma Execute_register_and_upload_stamped:
  assumes "store_CreateEnvironment_call env
             \<in> set (snd (Execute_register_and_upload d opts app envCaller calls))"
      and "store_CreateEnvironment_call env \<notin> set calls"
  shows "\<exists>env0. envDeployer_GetEnvironment d (appName opts) (name opts) = Inr env0 \<and>
           env = env0\<lparr>Environment.Prod := isProduction opts,
                      CustomConfig := NewCustomizeEnv (importVPCConfig opts) (adjustVPCConfig opts)\<rparr>"
  using assms
  by (auto simp: Execute_register_and_upload_def addToStackset_def Let_def
        split: sum.splits option.splits prod.splits
        dest!: Execute_deploy_and_store_stamped)

lemma Execute_stamped:
  assumes "store_CreateEnvironment_call env \<in> set (snd (Execute d opts))"
  shows "\<exists>env0. envDeployer_GetEnvironment d (appName opts) (name opts) = Inr env0 \<and>
           env = env0\<lparr>Environment.Prod := isProduction opts,
                      CustomConfig := NewCustomizeEnv (importVPCConfig opts) (adjustVPCConfig opts)\<rparr>"
  using assms
  by (auto simp: Execute_def delegateDNSFromApp_def
        split: sum.splits option.splits prod.splits if_splits
        dest!: Execute_register_and_upload_stamped)

text \<open>
  C9: \<open>NewCustomizeEnv\<close> returns nil if and only if both its arguments are nil. Hence every
  record that \<open>Execute\<close> hands to the store carries the custom configuration
  \<open>NewCustomizeEnv (importVPCConfig ...) (adjustVPCConfig ...)\<close>: when it is not nil, it
  holds an import or an adjust configuration, and when the default configuration was asked
  for (by the flag, or because no field of either kind is set), it is nil.
\<close>

theorem NewCustomizeEnv_nil_iff_both_nil:
  "(NewCustomizeEnv imp adj = None \<longleftrightarrow> imp = None \<and> adj = None)
   \<and> (\<forall>env. store_CreateEnvironment_call env \<in> set (snd (Execute d opts)) \<longrightarrow>
          CustomConfig env = NewCustomizeEnv (importVPCConfig opts) (adjustVPCConfig opts)
        \<and> (\<forall>c. CustomConfig env = Some c
                \<longrightarrow> CustomizeEnv.ImportVPC c \<noteq> None \<or> VPCConfig c \<noteq> None)
        \<and> (defaultConfig opts
             \<or> (\<not> importVPCVars_isSet (importVPC opts) \<and> \<not> adjustVPCVars_isSet (adjustVPC opts))
            \<longrightarrow> CustomConfig env = None))"
proof (intro conjI allI impI)
  show "NewCustomizeEnv imp adj = None \<longleftrightarrow> imp = None \<and> adj = None"
    by (auto simp: NewCustomizeEnv_def)
next
  fix env
  assume "store_CreateEnvironment_call env \<in> set (snd (Execute d opts))"
  then obtain env0 where
    "env = env0\<lparr>Environment.Prod := isProduction opts,
                CustomConfig := NewCustomizeEnv (importVPCConfig opts) (adjustVPCConfig opts)\<rparr>"
    using Execute_stamped by blast
  then have cc: "CustomConfig env = NewCustomizeEnv (importVPCConfig opts) (adjustVPCConfig opts)"
    by simp
  then show "CustomConfig env = NewCustomizeEnv (importVPCConfig opts) (adjustVPCConfig opts)" .
  show "\<And>c. CustomConfig env = Some c
          \<Longrightarrow> CustomizeEnv.ImportVPC c \<noteq> None \<or> VPCConfig c \<noteq> None"
    unfolding cc by (auto simp: NewCustomizeEnv_def split: if_splits)
  show "defaultConfig opts
          \<or> (\<not> importVPCVars_isSet (importVPC opts) \<and> \<not> adjustVPCVars_isSet (adjustVPC opts))
        \<Longrightarrow> CustomConfig env = None"
    unfolding cc by (auto simp: NewCustomizeEnv_def importVPCConfig_def adjustVPCConfig_def)
qed

lemma demo_Execute_stores:
  "store_CreateEnvironment_call
     ((demo_env ''test'' False)
        \<lparr>CustomConfig :=
           NewCustomizeEnv (importVPCConfig (demo_opts dflt imp adj))
             (adjustVPCConfig (demo_opts dflt imp adj))\<rparr>)
     \<in> set (snd (Execute (demo_deps None y z) (demo_opts dflt imp adj)))"
proof -
  have "fst (deployEnv (demo_deps None y z) (demo_opts dflt imp adj) demo_app Map.empty) = None"
    by (simp add: deployEnv_def cleanUpDanglingRoles_def demo_deps_reach_deployer Let_def
          split: prod.splits)
  then obtain dcalls where
    "deployEnv (demo_deps None y z) (demo_opts dflt imp adj) demo_app Map.empty = (None, dcalls)"
    by (metis prod.collapse)
  from Execute_proceeds [where d = "demo_deps None y z" and opts = "demo_opts dflt imp adj"
      and app = demo_app and envCaller = demo_caller
      and resources = "\<lparr>S3Bucket = ''demo-bucket''\<rparr>" and urls = Map.empty
      and env = "demo_env ''test'' True", OF _ _ _ _ _ _ _ this]
  obtain pre where
    "snd (Execute (demo_deps None y z) (demo_opts dflt imp adj)) =
       pre @ dcalls @
       [envDeployer_GetEnvironment_call ''demo'' ''test'',
        store_CreateEnvironment_call
          ((demo_env ''test'' True)
             \<lparr>Environment.Prod := False,
              CustomConfig :=
                NewCustomizeEnv (importVPCConfig (demo_opts dflt imp adj))
                  (adjustVPCConfig (demo_opts dflt imp adj))\<rparr>)]"
    by (auto simp: demo_deps_earlier_steps demo_opts_def)
  then show ?thesis by (simp add: demo_env_def)
qed

theorem NewCustomizeEnv_nil_iff_both_nil_witness:
  "NewCustomizeEnv None None = None
   \<and> store_CreateEnvironment_call (demo_env ''test'' False)
       \<in> set (snd (Execute (demo_deps None (None, None) (None, None))
                      (demo_opts True no_importVPC no_adjustVPC)))
   \<and> defaultConfig (demo_opts True no_importVPC no_adjustVPC)
   \<and> CustomConfig (demo_env ''test'' False) = None
   \<and> store_CreateEnvironment_call
        ((demo_env ''test'' False)
           \<lparr>CustomConfig :=
              Some \<lparr>ImportVPC = Some \<lparr>ImportVPC.ID = ''vpc-1'', PublicSubnetIDs = None,
                                        PrivateSubnetIDs = None\<rparr>,
                    VPCConfig = None\<rparr>\<rparr>)
       \<in> set (snd (Execute (demo_deps None (None, None) (None, None))
                      (demo_opts False import_vpc1 no_adjustVPC)))
   \<and> CustomConfig
        ((demo_env ''test'' False)
           \<lparr>CustomConfig :=
              Some \<lparr>ImportVPC = Some \<lparr>ImportVPC.ID = ''vpc-1'', PublicSubnetIDs = None,
                                        PrivateSubnetIDs = None\<rparr>,
                    VPCConfig = None\<rparr>\<rparr>)
       = NewCustomizeEnv (importVPCConfig (demo_opts False import_vpc1 no_adjustVPC))
           (adjustVPCConfig (demo_opts False import_vpc1 no_adjustVPC))"
proof -
  have c1: "NewCustomizeEnv (importVPCConfig (demo_opts True no_importVPC no_adjustVPC))
              (adjustVPCConfig (demo_opts True no_importVPC no_adjustVPC)) = None"
    by (simp add: NewCustomizeEnv_def importVPCConfig_def adjustVPCConfig_def demo_opts_def)
  have c2: "NewCustomizeEnv (importVPCConfig (demo_opts False import_vpc1 no_adjustVPC))
              (adjustVPCConfig (demo_opts False import_vpc1 no_adjustVPC)) =
            Some \<lparr>ImportVPC = Some \<lparr>ImportVPC.ID = ''vpc-1'', PublicSubnetIDs = None,
                                      PrivateSubnetIDs = None\<rparr>,
                  VPCConfig = None\<rparr>"
    by (simp add: NewCustomizeEnv_def importVPCConfig_def adjustVPCConfig_def demo_opts_def
          import_vpc1_def no_adjustVPC_def importVPCVars_isSet_def adjustVPCVars_isSet_def
          len_def)
  have m1: "store_CreateEnvironment_call (demo_env ''test'' False)
       \<in> set (snd (Execute (demo_deps None (None, None) (None, None))
                      (demo_opts True no_importVPC no_adjustVPC)))"
    using demo_Execute_stores [of True no_importVPC no_adjustVPC "(None, None)" "(None, None)"]
    by (simp add: c1 demo_env_def)
  have m2: "store_CreateEnvironment_call
        ((demo_env ''test'' False)
           \<lparr>CustomConfig :=
              Some \<lparr>ImportVPC = Some \<lparr>ImportVPC.ID = ''vpc-1'', PublicSubnetIDs = None,
                                        PrivateSubnetIDs = None\<rparr>,
                    VPCConfig = None\<rparr>\<rparr>)
       \<in> set (snd (Execute (demo_deps None (None, None) (None, None))
                      (demo_opts False import_vpc1 no_adjustVPC)))"
    using demo_Execute_stores [of False import_vpc1 no_adjustVPC "(None, None)" "(None, None)"]
    by (simp add: c2)
  from NewCustomizeEnv_nil_iff_both_nil
         [of None None "demo_deps None (None, None) (None, None)"
             "demo_opts True no_importVPC no_adjustVPC"]
       NewCustomizeEnv_nil_iff_both_nil
         [of None None "demo_deps None (None, None) (None, None)"
             "demo_opts False import_vpc1 no_adjustVPC"]
       m1 m2
  show ?thesis
    by (auto simp: demo_opts_def)
qed

end
